theory Spec2Isabelle
  imports Complex_Main "HOL-Library.Sublist"
begin

section \<open>Python values used by app.py\<close>

subsection \<open>Strings\<close>

text \<open>
  A Python \<open>str\<close> is a sequence of Unicode code points, and slicing, \<open>startswith\<close>,
  \<open>replace\<close> and \<open>strip\<close> all count code points. A string is therefore a list of
  code points (natural numbers); \<open>lit\<close> turns an ASCII literal into such a list.
\<close>

type_synonym pystr = "nat list"

definition lit :: "string \<Rightarrow> pystr" where
  "lit s = map of_char s"

text \<open>\<open>str.startswith\<close> is \<^const>\<open>prefix\<close>; \<open>s[:n]\<close> is \<^const>\<open>take\<close>.\<close>

text \<open>
  \<open>str.strip()\<close> removes leading and trailing white space. The code points below are
  the ones CPython's \<open>str.isspace\<close> accepts.
\<close>

definition is_space :: "nat \<Rightarrow> bool" where
  "is_space c \<longleftrightarrow>
     (9 \<le> c \<and> c \<le> 13) \<or> (28 \<le> c \<and> c \<le> 32) \<or> c = 133 \<or> c = 160 \<or> c = 5760 \<or>
     (8192 \<le> c \<and> c \<le> 8202) \<or> c = 8232 \<or> c = 8233 \<or> c = 8239 \<or> c = 8287 \<or> c = 12288"

definition py_strip :: "pystr \<Rightarrow> pystr" where
  "py_strip s = rev (dropWhile is_space (rev (dropWhile is_space s)))"

text \<open>
  \<open>str.lower()\<close>: \<open>A\<close>..\<open>Z\<close> are mapped to \<open>a\<close>..\<open>z\<close>. Python applies the full
  Unicode case table; the embedding agrees with it on ASCII text and leaves every other
  code point as it is.
\<close>

definition lower_cp :: "nat \<Rightarrow> nat" where
  "lower_cp c = (if 65 \<le> c \<and> c \<le> 90 then c + 32 else c)"

definition py_lower :: "pystr \<Rightarrow> pystr" where
  "py_lower s = map lower_cp s"

text \<open>
  \<open>s.replace(old, new)\<close> replaces the non-overlapping occurrences of \<open>old\<close>, found
  from the left: where \<open>old\<close> starts at the current position, \<open>new\<close> is emitted and
  the scan resumes after the occurrence (one character is consumed by the pattern
  \<open>c # s\<close>, the other \<open>length old - 1\<close> by \<open>drop\<close>). With an empty \<open>old\<close>, Python puts
  \<open>new\<close> before every character and at the end.
\<close>

fun replace_nonempty :: "pystr \<Rightarrow> pystr \<Rightarrow> pystr \<Rightarrow> pystr" where
  "replace_nonempty [] old new = []"
| "replace_nonempty (c # s) old new =
     (if prefix old (c # s)
      then new @ replace_nonempty (drop (length old - 1) s) old new
      else c # replace_nonempty s old new)"

definition py_replace :: "pystr \<Rightarrow> pystr \<Rightarrow> pystr \<Rightarrow> pystr" where
  "py_replace s old new =
     (if old = [] then concat (map (\<lambda>c. new @ [c]) s) @ new
      else replace_nonempty s old new)"

text \<open>\<open>str(n)\<close> for an integer: decimal digits, with a minus sign when negative.\<close>

fun str_nat :: "nat \<Rightarrow> pystr" where
  "str_nat n = (if n < 10 then [48 + n] else str_nat (n div 10) @ [48 + n mod 10])"

declare str_nat.simps [simp del]

definition str_int :: "int \<Rightarrow> pystr" where
  "str_int i = (if i < 0 then 45 # str_nat (nat (- i)) else str_nat (nat i))"

subsection \<open>Cell values\<close>

text \<open>
  A cell of the sheet dataframe is dynamically typed. The embedding covers strings,
  integers, booleans, the float \<open>nan\<close> that pandas uses for a missing cell, and \<open>None\<close>.
  \<open>py_str\<close> is Python's \<open>str()\<close>, \<open>isna\<close> is \<open>pd.isna\<close> on a scalar.
\<close>

datatype pyval = PStr pystr | PInt int | PBool bool | PNaN | PNone

fun py_str :: "pyval \<Rightarrow> pystr" where
  "py_str (PStr s) = s"
| "py_str (PInt i) = str_int i"
| "py_str (PBool b) = (if b then lit ''True'' else lit ''False'')"
| "py_str PNaN = lit ''nan''"
| "py_str PNone = lit ''None''"

fun isna :: "pyval \<Rightarrow> bool" where
  "isna PNaN = True"
| "isna PNone = True"
| "isna _ = False"

subsection \<open>Exceptions and dictionaries\<close>

text \<open>
  An exception is a value; \<open>exn_str\<close> is \<open>str(e)\<close>. \<open>Exception msg\<close> stands for any
  exception raised by the external modules \<open>google_utils\<close> and \<open>llm_providers\<close>, with
  its message.
\<close>

datatype exn = KeyError pystr | IndexError | Exception pystr

fun exn_str :: "exn \<Rightarrow> pystr" where
  "exn_str (KeyError k) = [39] @ k @ [39]"
| "exn_str IndexError = lit ''list index out of range''"
| "exn_str (Exception msg) = msg"

text \<open>
  A \<open>dict\<close> is an association list in insertion order. \<open>d[k]\<close> raises \<open>KeyError\<close> on a
  missing key, \<open>d.get(k, default)\<close> does not, and \<open>d[k] = v\<close> keeps the position of a key
  that is already there.
\<close>

definition dict_getitem :: "(pystr \<times> 'v) list \<Rightarrow> pystr \<Rightarrow> exn + 'v" where
  "dict_getitem d k = (case map_of d k of None \<Rightarrow> Inl (KeyError k) | Some v \<Rightarrow> Inr v)"

definition dict_get :: "(pystr \<times> 'v) list \<Rightarrow> pystr \<Rightarrow> 'v \<Rightarrow> 'v" where
  "dict_get d k dflt = (case map_of d k of None \<Rightarrow> dflt | Some v \<Rightarrow> v)"

fun dict_set :: "(pystr \<times> 'v) list \<Rightarrow> pystr \<Rightarrow> 'v \<Rightarrow> (pystr \<times> 'v) list" where
  "dict_set [] k v = [(k, v)]"
| "dict_set ((k', v') # d) k v = (if k' = k then (k, v) # d else (k', v') # dict_set d k v)"

section \<open>render_status_badge\<close>

text \<open>The f-string of line 331.\<close>

definition badge :: "pystr \<Rightarrow> pystr \<Rightarrow> pystr" where
  \<open>badge badge_class badge_text =
     lit ''<span class="status-badge '' @ badge_class @ lit ''">'' @ badge_text @ lit ''</span>''\<close>

definition render_status_badge :: "pyval \<Rightarrow> pystr" where
  "render_status_badge status =
     (let (badge_class, badge_text) =
        (if isna status \<or> status = PStr [] then (lit ''status-pending'', lit ''Pending'')
         else if prefix (lit ''done'') (py_lower (py_str status))
           then (lit ''status-success'', [10003] @ lit '' Done'')
         else if prefix (lit ''error'') (py_lower (py_str status))
           then (lit ''status-error'', [10007] @ lit '' Error'')
         else (lit ''status-pending'', py_str status))
      in badge badge_class badge_text)"

section \<open>Themes\<close>

text \<open>
  \<open>THEMES\<close> is the module-level dictionary of lines 33-194: twenty themes, each a
  dictionary of six colours.
\<close>

type_synonym theme = "(pystr \<times> pystr) list"

definition THEMES :: "(pystr \<times> theme) list" where
  "THEMES = [
   (lit ''Cyber Neon'',
     [(lit ''primary'', lit ''#00ffff''),
      (lit ''secondary'', lit ''#ff00ff''),
      (lit ''background'', lit ''#0a0e27''),
      (lit ''surface'', lit ''#1a1f3a''),
      (lit ''text'', lit ''#e0e0e0''),
      (lit ''accent'', lit ''#00ff88'')]),
   (lit ''Sunset Glow'',
     [(lit ''primary'', lit ''#ff6b6b''),
      (lit ''secondary'', lit ''#ffd93d''),
      (lit ''background'', lit ''#2d1b2e''),
      (lit ''surface'', lit ''#3d2b3e''),
      (lit ''text'', lit ''#f5f5f5''),
      (lit ''accent'', lit ''#ff9a56'')]),
   (lit ''Ocean Depth'',
     [(lit ''primary'', lit ''#0077be''),
      (lit ''secondary'', lit ''#00b4d8''),
      (lit ''background'', lit ''#011627''),
      (lit ''surface'', lit ''#1a2332''),
      (lit ''text'', lit ''#f1f1f1''),
      (lit ''accent'', lit ''#48cae4'')]),
   (lit ''Forest Twilight'',
     [(lit ''primary'', lit ''#2d6a4f''),
      (lit ''secondary'', lit ''#52b788''),
      (lit ''background'', lit ''#1b263b''),
      (lit ''surface'', lit ''#2d3e50''),
      (lit ''text'', lit ''#e8f5e9''),
      (lit ''accent'', lit ''#95d5b2'')]),
   (lit ''Royal Purple'',
     [(lit ''primary'', lit ''#7b2cbf''),
      (lit ''secondary'', lit ''#c77dff''),
      (lit ''background'', lit ''#10002b''),
      (lit ''surface'', lit ''#240046''),
      (lit ''text'', lit ''#f0e6ff''),
      (lit ''accent'', lit ''#e0aaff'')]),
   (lit ''Desert Sunset'',
     [(lit ''primary'', lit ''#d4a373''),
      (lit ''secondary'', lit ''#ee9b00''),
      (lit ''background'', lit ''#1a1410''),
      (lit ''surface'', lit ''#2d2418''),
      (lit ''text'', lit ''#fdf6e3''),
      (lit ''accent'', lit ''#ca6702'')]),
   (lit ''Arctic Ice'',
     [(lit ''primary'', lit ''#4cc9f0''),
      (lit ''secondary'', lit ''#7209b7''),
      (lit ''background'', lit ''#03045e''),
      (lit ''surface'', lit ''#023e8a''),
      (lit ''text'', lit ''#caf0f8''),
      (lit ''accent'', lit ''#90e0ef'')]),
   (lit ''Volcanic Ash'',
     [(lit ''primary'', lit ''#e63946''),
      (lit ''secondary'', lit ''#f77f00''),
      (lit ''background'', lit ''#1d1d1d''),
      (lit ''surface'', lit ''#2d2d2d''),
      (lit ''text'', lit ''#f1faee''),
      (lit ''accent'', lit ''#ffb703'')]),
   (lit ''Mint Fresh'',
     [(lit ''primary'', lit ''#06ffa5''),
      (lit ''secondary'', lit ''#00d9ff''),
      (lit ''background'', lit ''#0f1419''),
      (lit ''surface'', lit ''#1a2027''),
      (lit ''text'', lit ''#e8fff3''),
      (lit ''accent'', lit ''#4fffb0'')]),
   (lit ''Lavender Dreams'',
     [(lit ''primary'', lit ''#b8a7d4''),
      (lit ''secondary'', lit ''#d4a5d8''),
      (lit ''background'', lit ''#1a1423''),
      (lit ''surface'', lit ''#2d243a''),
      (lit ''text'', lit ''#f8f4ff''),
      (lit ''accent'', lit ''#c4b5f3'')]),
   (lit ''Monochrome Pro'',
     [(lit ''primary'', lit ''#ffffff''),
      (lit ''secondary'', lit ''#b0b0b0''),
      (lit ''background'', lit ''#000000''),
      (lit ''surface'', lit ''#1a1a1a''),
      (lit ''text'', lit ''#ffffff''),
      (lit ''accent'', lit ''#808080'')]),
   (lit ''Coral Reef'',
     [(lit ''primary'', lit ''#ff6f61''),
      (lit ''secondary'', lit ''#ffb399''),
      (lit ''background'', lit ''#1a0f14''),
      (lit ''surface'', lit ''#2d1f24''),
      (lit ''text'', lit ''#fff5f5''),
      (lit ''accent'', lit ''#ff9a8a'')]),
   (lit ''Emerald Night'',
     [(lit ''primary'', lit ''#50c878''),
      (lit ''secondary'', lit ''#00a86b''),
      (lit ''background'', lit ''#0a1612''),
      (lit ''surface'', lit ''#142822''),
      (lit ''text'', lit ''#e8fff2''),
      (lit ''accent'', lit ''#7cf5a0'')]),
   (lit ''Golden Hour'',
     [(lit ''primary'', lit ''#ffd700''),
      (lit ''secondary'', lit ''#ffed4e''),
      (lit ''background'', lit ''#1a1410''),
      (lit ''surface'', lit ''#2d2418''),
      (lit ''text'', lit ''#fffef0''),
      (lit ''accent'', lit ''#ffe55c'')]),
   (lit ''Deep Space'',
     [(lit ''primary'', lit ''#8b5cf6''),
      (lit ''secondary'', lit ''#ec4899''),
      (lit ''background'', lit ''#0c0a1d''),
      (lit ''surface'', lit ''#1a1631''),
      (lit ''text'', lit ''#f3e8ff''),
      (lit ''accent'', lit ''#a78bfa'')]),
   (lit ''Crimson Edge'',
     [(lit ''primary'', lit ''#dc143c''),
      (lit ''secondary'', lit ''#ff6b9d''),
      (lit ''background'', lit ''#1a0a0f''),
      (lit ''surface'', lit ''#2d141f''),
      (lit ''text'', lit ''#fff0f5''),
      (lit ''accent'', lit ''#ff4d6d'')]),
   (lit ''Teal Fusion'',
     [(lit ''primary'', lit ''#14b8a6''),
      (lit ''secondary'', lit ''#06b6d4''),
      (lit ''background'', lit ''#0f1419''),
      (lit ''surface'', lit ''#1a2530''),
      (lit ''text'', lit ''#e0f2fe''),
      (lit ''accent'', lit ''#5eead4'')]),
   (lit ''Amber Glow'',
     [(lit ''primary'', lit ''#f59e0b''),
      (lit ''secondary'', lit ''#fbbf24''),
      (lit ''background'', lit ''#1c1410''),
      (lit ''surface'', lit ''#2d2318''),
      (lit ''text'', lit ''#fffbeb''),
      (lit ''accent'', lit ''#fcd34d'')]),
   (lit ''Indigo Wave'',
     [(lit ''primary'', lit ''#6366f1''),
      (lit ''secondary'', lit ''#818cf8''),
      (lit ''background'', lit ''#0f0f1e''),
      (lit ''surface'', lit ''#1e1e3f''),
      (lit ''text'', lit ''#e0e7ff''),
      (lit ''accent'', lit ''#a5b4fc'')]),
   (lit ''Rose Garden'',
     [(lit ''primary'', lit ''#f43f5e''),
      (lit ''secondary'', lit ''#fb7185''),
      (lit ''background'', lit ''#1f0a13''),
      (lit ''surface'', lit ''#2d1420''),
      (lit ''text'', lit ''#fff1f2''),
      (lit ''accent'', lit ''#fda4af'')])]"

text \<open>
  Line 198: \<open>theme = THEMES.get(theme_name, THEMES["Cyber Neon"])\<close>. Python evaluates
  the default argument first, so a missing \<open>"Cyber Neon"\<close> key would raise for every
  name.
\<close>

definition select_theme :: "pystr \<Rightarrow> exn + theme" where
  "select_theme theme_name =
     (case dict_getitem THEMES (lit ''Cyber Neon'') of
        Inl e \<Rightarrow> Inl e
      | Inr dflt \<Rightarrow> Inr (dict_get THEMES theme_name dflt))"

text \<open>
  The style sheet of lines 200-314 is a fixed template whose holes are the subscriptions
  \<open>theme['primary']\<close>, \<open>theme['secondary']\<close>, \<open>theme['background']\<close>,
  \<open>theme['surface']\<close>, \<open>theme['text']\<close> and \<open>theme['accent']\<close>. \<open>apply_theme\<close> returns
  the values read for them, or the exception of the first read that fails.
\<close>

fun getitems :: "theme \<Rightarrow> pystr list \<Rightarrow> exn + pystr list" where
  "getitems t [] = Inr []"
| "getitems t (k # ks) =
     (case dict_getitem t k of
        Inl e \<Rightarrow> Inl e
      | Inr v \<Rightarrow> (case getitems t ks of Inl e \<Rightarrow> Inl e | Inr vs \<Rightarrow> Inr (v # vs)))"

definition theme_keys :: "pystr list" where
  "theme_keys = [lit ''primary'', lit ''secondary'', lit ''background'', lit ''surface'',
                 lit ''text'', lit ''accent'']"

definition apply_theme :: "pystr \<Rightarrow> exn + pystr list" where
  "apply_theme theme_name =
     (case select_theme theme_name of
        Inl e \<Rightarrow> Inl e
      | Inr theme \<Rightarrow> getitems theme theme_keys)"

section \<open>The sheet dataframe\<close>

text \<open>
  \<open>read_sheet_df\<close> (module \<open>google_utils\<close>) returns a pandas dataframe. The embedding keeps
  what app.py reads of it: the column labels, and for every row the index label that
  \<open>iterrows()\<close> yields together with the row, a labelled series of cells.
  \<open>row.get(col, "")\<close> is \<open>dict_get row col (PStr [])\<close>.
\<close>

type_synonym row = "(pystr \<times> pyval) list"

record dataframe =
  columns :: "pystr list"
  rows :: "(int \<times> row) list"

definition TRIGGER_COL :: pystr where "TRIGGER_COL = lit ''Generate''"
definition STATUS_COL :: pystr where "STATUS_COL = lit ''Status''"
definition URL_COL :: pystr where "URL_COL = lit ''Doc URL''"
definition TS_COL :: pystr where "TS_COL = lit ''Generated At''"
definition PDF_URL_COL :: pystr where "PDF_URL_COL = lit ''PDF URL''"

text \<open>\<open>df.empty\<close>: one of the two axes has length 0. \<open>len(df)\<close> is the number of rows.\<close>

definition df_empty :: "dataframe \<Rightarrow> bool" where
  "df_empty df \<longleftrightarrow> rows df = [] \<or> columns df = []"

definition df_len :: "dataframe \<Rightarrow> int" where
  "df_len df = int (length (rows df))"

section \<open>Dashboard metrics (tab1, lines 476-482)\<close>

text \<open>
  \<open>df[STATUS_COL].astype(str)\<close>: the Status cell of every row, through \<open>str\<close>. A row
  that carries no such cell holds \<open>nan\<close> in the frame.
\<close>

definition status_strings :: "dataframe \<Rightarrow> pystr list" where
  "status_strings df = map (\<lambda>(idx, row). py_str (dict_get row STATUS_COL PNaN)) (rows df)"

definition total_rows :: "dataframe \<Rightarrow> int" where
  "total_rows df = df_len df"

definition done_count :: "dataframe \<Rightarrow> int" where
  "done_count df = int (length (filter (prefix (lit ''Done'')) (status_strings df)))"

definition dash_error_count :: "dataframe \<Rightarrow> int" where
  "dash_error_count df = int (length (filter (prefix (lit ''Error'')) (status_strings df)))"

definition pending_count :: "dataframe \<Rightarrow> int" where
  "pending_count df = total_rows df - done_count df - dash_error_count df"

text \<open>
  \<open>success_rate\<close> is a Python float; the embedding computes the same expression over
  the rationals, so the rounding of the float operations is not represented.
\<close>

definition success_rate :: "dataframe \<Rightarrow> rat" where
  "success_rate df =
     (if total_rows df > 0 then of_int (done_count df) / of_int (total_rows df) * 100 else 0)"

text \<open>The metrics are computed under the guard of line 476 only.\<close>

definition metrics_shown :: "dataframe \<Rightarrow> bool" where
  "metrics_shown df \<longleftrightarrow> \<not> df_empty df \<and> STATUS_COL \<in> set (columns df)"

definition dashboard_metrics :: "dataframe \<Rightarrow> (int \<times> int \<times> int \<times> int \<times> rat) option" where
  "dashboard_metrics df =
     (if metrics_shown df
      then Some (total_rows df, done_count df, dash_error_count df, pending_count df,
                 success_rate df)
      else None)"

section \<open>Document generation (tab4, lines 761-835)\<close>

subsection \<open>Inputs, external calls and effects\<close>

text \<open>
  The widgets and the session state read by the loop. \<open>dest_folder_id\<close> is
  \<open>st.session_state.get("dest_folder_id")\<close>, \<open>None\<close> when it was never set.
\<close>

record gen_inputs =
  spreadsheet_id :: pystr
  template_id :: pystr
  dest_folder_id :: "pystr option"
  gen_mode :: pystr
  create_pdf :: bool
  custom_filename :: pystr
  manual_sel :: "int list"

text \<open>
  The functions of \<open>google_utils\<close> that the loop calls are not part of app.py: they are
  parameters. Each acts on an external world \<open>'w\<close> (the Drive and Sheets services) and
  either returns or raises; a call that raises may have changed the world.
  \<open>now_str\<close> is \<open>datetime.now().strftime("%Y-%m-%d %H:%M:%S")\<close>.
\<close>

record 'w google_utils =
  copy_gdoc :: "pystr \<Rightarrow> pystr \<Rightarrow> pystr option \<Rightarrow> 'w \<Rightarrow> (exn + pystr) \<times> 'w"
  replace_placeholders :: "pystr \<Rightarrow> (pystr \<times> pyval) list \<Rightarrow> 'w \<Rightarrow> (exn + unit) \<times> 'w"
  write_back :: "pystr \<Rightarrow> int \<Rightarrow> (pystr \<times> pystr) list \<Rightarrow> 'w \<Rightarrow> (exn + unit) \<times> 'w"
  now_str :: "'w \<Rightarrow> pystr"

text \<open>
  Every external call and every widget output is recorded, in program order, with the
  arguments it was given. \<open>Progress a b\<close> is \<open>progress_bar.progress\<close> on the fraction
  \<open>a / b\<close>; \<open>GenerationComplete s e\<close> is the summary card of lines 830-835.
\<close>

datatype event =
    CopyGdoc pystr pystr "pystr option"
  | ReplacePlaceholders pystr "(pystr \<times> pyval) list"
  | WriteBack pystr int "(pystr \<times> pystr) list"
  | StSuccess pystr
  | StError pystr
  | Progress int int
  | GenerationComplete int int

record 'w gen_state =
  world :: 'w
  trace :: "event list"
  success_count :: int
  error_count :: int

subsection \<open>Selection and the idempotency skip (lines 771-785)\<close>

definition selected :: "gen_inputs \<Rightarrow> int \<Rightarrow> row \<Rightarrow> bool" where
  "selected inp idx row =
     (let row_index_1 = idx + 2 in
      if gen_mode inp = lit ''Rows with Generate=TRUE'' then
        (let trig_val = py_lower (py_strip (py_str (dict_get row TRIGGER_COL (PStr []))))
         in trig_val \<in> set [lit ''true'', lit ''yes'', lit ''y'', lit ''1'', lit ''checked''])
      else if gen_mode inp = lit ''All rows without Doc URL'' then
        py_strip (py_str (dict_get row URL_COL (PStr []))) = []
      else if gen_mode inp = lit ''Manual selection'' then
        row_index_1 \<in> set (manual_sel inp)
      else True)"

definition has_url :: "row \<Rightarrow> bool" where
  "has_url row \<longleftrightarrow> py_strip (py_str (dict_get row URL_COL (PStr []))) \<noteq> []"

subsection \<open>The try block (lines 788-820)\<close>

definition placeholder :: "pystr \<Rightarrow> pystr" where
  "placeholder col = lit ''{{'' @ col @ lit ''}}''"

definition build_filename :: "pystr \<Rightarrow> pystr list \<Rightarrow> row \<Rightarrow> pystr" where
  "build_filename pattern cols row =
     fold (\<lambda>col filename.
             py_replace filename (placeholder col) (py_str (dict_get row col (PStr []))))
          cols pattern"

definition build_mapping :: "pystr list \<Rightarrow> row \<Rightarrow> (pystr \<times> pyval) list" where
  "build_mapping cols row =
     fold (\<lambda>col mapping. dict_set mapping col (dict_get row col (PStr []))) cols []"

definition doc_url_of :: "pystr \<Rightarrow> pystr" where
  "doc_url_of new_doc_id = lit ''https://docs.google.com/document/d/'' @ new_doc_id @ lit ''/edit''"

definition pdf_url_of :: "pystr \<Rightarrow> pystr" where
  "pdf_url_of new_doc_id =
     lit ''https://docs.google.com/document/d/'' @ new_doc_id @ lit ''/export?format=pdf''"

definition build_updates :: "bool \<Rightarrow> pystr \<Rightarrow> pystr \<Rightarrow> (pystr \<times> pystr) list" where
  "build_updates pdf new_doc_id ts =
     (let updates = [(STATUS_COL, lit ''Done''), (URL_COL, doc_url_of new_doc_id), (TS_COL, ts)]
      in if pdf then dict_set updates PDF_URL_COL (pdf_url_of new_doc_id) else updates)"

definition add_event :: "event \<Rightarrow> 'w gen_state \<Rightarrow> 'w gen_state" where
  "add_event ev st = st\<lparr>trace := trace st @ [ev]\<rparr>"

definition try_block ::
  "'w google_utils \<Rightarrow> gen_inputs \<Rightarrow> pystr list \<Rightarrow> int \<Rightarrow> row \<Rightarrow> 'w gen_state
     \<Rightarrow> (exn + unit) \<times> 'w gen_state" where
  "try_block api inp cols row_index_1 row st =
     (let filename = build_filename (custom_filename inp) cols row;
          (r1, w1) = copy_gdoc api (template_id inp) filename (dest_folder_id inp) (world st);
          st1 = add_event (CopyGdoc (template_id inp) filename (dest_folder_id inp)) (st\<lparr>world := w1\<rparr>)
      in case r1 of
           Inl e \<Rightarrow> (Inl e, st1)
         | Inr new_doc_id \<Rightarrow>
            (let mapping = build_mapping cols row;
                 (r2, w2) = replace_placeholders api new_doc_id mapping w1;
                 st2 = add_event (ReplacePlaceholders new_doc_id mapping) (st1\<lparr>world := w2\<rparr>)
             in case r2 of
                  Inl e \<Rightarrow> (Inl e, st2)
                | Inr _ \<Rightarrow>
                   (let updates = build_updates (create_pdf inp) new_doc_id (now_str api w2);
                        (r3, w3) = write_back api (spreadsheet_id inp) row_index_1 updates w2;
                        st3 = add_event (WriteBack (spreadsheet_id inp) row_index_1 updates)
                                (st2\<lparr>world := w3\<rparr>)
                    in case r3 of
                         Inl e \<Rightarrow> (Inl e, st3)
                       | Inr _ \<Rightarrow>
                          (Inr (),
                           add_event (StSuccess ([9989] @ lit '' Row '' @ str_int row_index_1
                                             @ lit '': '' @ filename))
                             (st3\<lparr>success_count := success_count st3 + 1\<rparr>)))))"

subsection \<open>The except block (lines 822-826)\<close>

text \<open>
  The handler's \<open>write_back\<close> is not itself guarded: when it raises, the exception leaves
  the \<open>for\<close> loop (and reaches the handler of line 837). The first component of the
  result is that exception, \<open>None\<close> when the handler ran to its end.
\<close>

definition error_updates :: "exn \<Rightarrow> (pystr \<times> pystr) list" where
  "error_updates e = [(STATUS_COL, lit ''Error: '' @ take 100 (exn_str e))]"

definition except_block ::
  "'w google_utils \<Rightarrow> gen_inputs \<Rightarrow> int \<Rightarrow> exn \<Rightarrow> 'w gen_state \<Rightarrow> exn option \<times> 'w gen_state" where
  "except_block api inp row_index_1 e st =
     (let st1 = st\<lparr>error_count := error_count st + 1\<rparr>;
          (r, w) = write_back api (spreadsheet_id inp) row_index_1 (error_updates e) (world st1);
          st2 = add_event (WriteBack (spreadsheet_id inp) row_index_1 (error_updates e))
                  (st1\<lparr>world := w\<rparr>)
      in case r of
           Inl e' \<Rightarrow> (Some e', st2)
         | Inr _ \<Rightarrow>
            (None, add_event (StError ([10060] @ lit '' Row '' @ str_int row_index_1 @ lit '': ''
                                  @ take 100 (exn_str e))) st2))"

subsection \<open>The loop\<close>

text \<open>
  One iteration. A row that fails the selection or already has a URL is left by
  \<open>continue\<close>, before the progress bar is touched.
\<close>

definition loop_body ::
  "'w google_utils \<Rightarrow> gen_inputs \<Rightarrow> dataframe \<Rightarrow> int \<times> row \<Rightarrow> 'w gen_state
     \<Rightarrow> exn option \<times> 'w gen_state" where
  "loop_body api inp df ir st =
     (let (idx, row) = ir; row_index_1 = idx + 2 in
      if \<not> selected inp idx row then (None, st)
      else if has_url row then (None, st)
      else
        (let (r, st1) = try_block api inp (columns df) row_index_1 row st;
             (raised, st2) = (case r of
                                Inr _ \<Rightarrow> (None, st1)
                              | Inl e \<Rightarrow> except_block api inp row_index_1 e st1)
         in case raised of
              Some e' \<Rightarrow> (Some e', st2)
            | None \<Rightarrow> (None, add_event (Progress (idx + 1) (df_len df)) st2)))"

fun generate_loop ::
  "'w google_utils \<Rightarrow> gen_inputs \<Rightarrow> dataframe \<Rightarrow> (int \<times> row) list \<Rightarrow> 'w gen_state
     \<Rightarrow> exn option \<times> 'w gen_state" where
  "generate_loop api inp df [] st = (None, st)"
| "generate_loop api inp df (ir # irs) st =
     (case loop_body api inp df ir st of
        (Some e, st') \<Rightarrow> (Some e, st')
      | (None, st') \<Rightarrow> generate_loop api inp df irs st')"

text \<open>
  Pressing the button: the counters start at 0, the loop runs over \<open>df.iterrows()\<close>, and
  the summary is shown; an exception that left the loop is reported by line 838.
\<close>

definition generate_documents ::
  "'w google_utils \<Rightarrow> gen_inputs \<Rightarrow> dataframe \<Rightarrow> 'w \<Rightarrow> 'w gen_state" where
  "generate_documents api inp df w =
     (case generate_loop api inp df (rows df)
             \<lparr>world = w, trace = [], success_count = 0, error_count = 0\<rparr> of
        (None, st) \<Rightarrow> add_event (GenerationComplete (success_count st) (error_count st)) st
      | (Some e, st) \<Rightarrow> add_event (StError (lit ''Error loading data: '' @ exn_str e)) st)"

section \<open>Agents runner (tab5, lines 1126-1193)\<close>

subsection \<open>Agents, context and external calls\<close>

text \<open>
  An agent is a dictionary loaded from YAML. The \<open>context\<close> handed to \<open>run_agent\<close> is a
  dictionary of two strings, and it is one Python object: line 1153 passes the same
  dictionary to every call, by reference, so a call may write to it.
  \<open>run_agent\<close> (module \<open>llm_providers\<close>) is a parameter. It acts on the external world and
  on the dictionary it is given; it returns the completion text or raises, and the second
  component of its answer is the dictionary as the call leaves it.
\<close>

type_synonym agent = "(pystr \<times> pyval) list"
type_synonym agent_context = "(pystr \<times> pystr) list"

record 'w llm_providers =
  run_agent :: "agent \<Rightarrow> agent_context \<Rightarrow> 'w \<Rightarrow> (exn + pystr) \<times> agent_context \<times> 'w"

text \<open>One entry of the \<open>results\<close> list: the dictionary with the keys \<open>agent\<close>, \<open>status\<close> and
  \<open>output\<close>.\<close>

record result =
  res_agent :: pyval
  res_status :: pystr
  res_output :: pystr

text \<open>
  The effects of this tab. \<open>AnalyzingCard n row\<close> is the preview card of lines
  1135-1140, \<open>AgentCard ok name\<close> the heading card of a result (lines 1179-1183 when \<open>ok\<close>,
  1186-1190 otherwise), \<open>StatusUpdate label state\<close> is \<open>status.update\<close>, \<open>TimeSleep\<close> is
  \<open>time.sleep(0.5)\<close>, and \<open>ProgressBar a b\<close> is \<open>progress_bar.progress(a / b)\<close>.
  \<open>RunAgent a c\<close> records a call of \<open>run_agent\<close> with the contents \<open>c\<close> that the
  context dictionary had when the call was made.
\<close>

datatype agent_event =
    AnalyzingCard int row
  | StStatus pystr
  | StWrite pystr
  | RunAgent agent agent_context
  | StatusUpdate pystr pystr
  | TimeSleep
  | ProgressBar int int
  | StMarkdown pystr
  | AgentCard bool pystr
  | StErrorBox pystr

record 'w run_state =
  llm_world :: 'w
  shown :: "agent_event list"
  results :: "result list"

definition emit :: "agent_event \<Rightarrow> 'w run_state \<Rightarrow> 'w run_state" where
  "emit ev st = st\<lparr>shown := shown st @ [ev]\<rparr>"

subsection \<open>One iteration of the loop (lines 1146-1171)\<close>

text \<open>
  \<open>agents[i]\<close> stands outside the inner \<open>try\<close>: an index past the list raises
  \<open>IndexError\<close>, which leaves the loop. Everything that \<open>run_agent\<close> raises is caught by
  the inner handler and becomes an error entry. The iteration takes the contents of the
  context dictionary and gives back what the call made of them; app.py itself does not
  assign to the dictionary.
\<close>

definition agent_name_of :: "agent \<Rightarrow> nat \<Rightarrow> pyval" where
  "agent_name_of a i =
     dict_get a (lit ''name'') (dict_get a (lit ''id'') (PStr (lit ''Agent '' @ str_int (int i + 1))))"

definition agent_step ::
  "'w llm_providers \<Rightarrow> agent list \<Rightarrow> agent_context \<Rightarrow> int \<Rightarrow> nat \<Rightarrow> 'w run_state
     \<Rightarrow> exn option \<times> agent_context \<times> 'w run_state" where
  "agent_step llm agents ctx num_agents i st =
     (if length agents \<le> i then (Some IndexError, ctx, st)
      else
        (let a = agents ! i;
             agent_name = agent_name_of a i;
             st1 = emit (StStatus ([129302] @ lit '' Running: '' @ py_str agent_name)) st;
             st2 = emit (StWrite (lit ''Provider: '' @ py_str (dict_get a (lit ''provider'') PNone)
                                   @ lit '' | Model: '' @ py_str (dict_get a (lit ''model'') PNone)))
                     st1;
             (r, ctx', w) = run_agent llm a ctx (llm_world st2);
             st3 = emit (RunAgent a ctx) (st2\<lparr>llm_world := w\<rparr>);
             st4 = (case r of
                      Inr out \<Rightarrow>
                        emit TimeSleep
                          (emit (StatusUpdate ([9989] @ [32] @ py_str agent_name @ lit '' - Complete'')
                                   (lit ''complete''))
                             (st3\<lparr>results := results st3 @
                                    [\<lparr>res_agent = agent_name, res_status = lit ''success'', res_output = out\<rparr>]\<rparr>))
                    | Inl e \<Rightarrow>
                        emit (StatusUpdate ([10060] @ [32] @ py_str agent_name @ lit '' - Error'')
                                (lit ''error''))
                          (st3\<lparr>results := results st3 @
                                 [\<lparr>res_agent = agent_name, res_status = lit ''error'',
                                   res_output = lit ''Error: '' @ exn_str e\<rparr>]\<rparr>))
         in (None, ctx', emit (ProgressBar (int i + 1) num_agents) st4)))"

fun agents_loop ::
  "'w llm_providers \<Rightarrow> agent list \<Rightarrow> agent_context \<Rightarrow> int \<Rightarrow> nat list \<Rightarrow> 'w run_state
     \<Rightarrow> exn option \<times> agent_context \<times> 'w run_state" where
  "agents_loop llm agents ctx num_agents [] st = (None, ctx, st)"
| "agents_loop llm agents ctx num_agents (i # idxs) st =
     (case agent_step llm agents ctx num_agents i st of
        (Some e, ctx', st') \<Rightarrow> (Some e, ctx', st')
      | (None, ctx', st') \<Rightarrow> agents_loop llm agents ctx' num_agents idxs st')"

subsection \<open>Showing the results (lines 1174-1193)\<close>

definition show_result :: "result \<Rightarrow> agent_event list" where
  "show_result r =
     (if res_status r = lit ''success''
      then [AgentCard True (py_str (res_agent r)), StMarkdown (res_output r)]
      else [AgentCard False (py_str (res_agent r)), StErrorBox (res_output r)])
     @ [StMarkdown (lit ''<br>'')]"

definition display_results :: "'w run_state \<Rightarrow> 'w run_state" where
  "display_results st =
     st\<lparr>shown := shown st @ [StMarkdown (lit ''---''), StMarkdown (lit ''### '' @ [128202] @ lit '' Agent Results'')]
                  @ concat (map show_result (results st))\<rparr>"

subsection \<open>The button handler from line 1126 on\<close>

text \<open>
  \<open>df\<close> is the frame that line 1124 read. \<open>json.dumps(row_data, ensure_ascii=False,
  indent=2)\<close> is a library call and enters as the parameter \<open>json_dumps\<close>; it may raise.
  \<open>range(int(num_agents))\<close> is \<open>[0..<nat num_agents]\<close>. An exception that leaves the
  block is reported by the handler of lines 1195-1196.
\<close>

definition build_context :: "pystr \<Rightarrow> pystr \<Rightarrow> agent_context" where
  "build_context row_json required_fields =
     [(lit ''row_json'', row_json), (lit ''required_fields_csv'', required_fields)]"

definition run_agents_pipeline ::
  "'w llm_providers \<Rightarrow> (row \<Rightarrow> exn + pystr) \<Rightarrow> dataframe \<Rightarrow> int \<Rightarrow> pystr \<Rightarrow> int \<Rightarrow> agent list
     \<Rightarrow> 'w \<Rightarrow> 'w run_state" where
  "run_agents_pipeline llm json_dumps df row_number required_fields num_agents agents w =
     (let st0 = \<lparr>llm_world = w, shown = [], results = []\<rparr> in
      if row_number - 2 \<ge> df_len df \<or> row_number - 2 < 0 then
        emit (StErrorBox (lit ''Row '' @ str_int row_number @ lit '' is out of range'')) st0
      else
        (let row_data = snd (rows df ! nat (row_number - 2)) in
         case json_dumps row_data of
           Inl e \<Rightarrow> emit (StErrorBox (lit ''Error running agents: '' @ exn_str e)) st0
         | Inr row_json \<Rightarrow>
            (let ctx = build_context row_json required_fields;
                 st1 = emit (AnalyzingCard row_number row_data) st0
             in case agents_loop llm agents ctx num_agents [0..<nat num_agents] st1 of
                  (Some e, ctx', st') \<Rightarrow>
                    emit (StErrorBox (lit ''Error running agents: '' @ exn_str e)) st'
                | (None, ctx', st') \<Rightarrow> display_results st')))"

text \<open>
  What the specification says of the runner, for comparison with the loop: \<open>run_agent\<close>
  applied to the agents one after the other, the world and the context dictionary
  threaded through, one entry kept per agent whether the call returned or raised. An
  entry pairs the context contents that the call received with its outcome.
\<close>

fun sequential_outcomes ::
  "'w llm_providers \<Rightarrow> agent_context \<Rightarrow> agent list \<Rightarrow> 'w
     \<Rightarrow> (agent_context \<times> (exn + pystr)) list" where
  "sequential_outcomes llm ctx [] w = []"
| "sequential_outcomes llm ctx (a # as) w =
     (let (r, ctx', w') = run_agent llm a ctx w
      in (ctx, r) # sequential_outcomes llm ctx' as w')"

text \<open>The entry that the specification expects for agent number \<open>i\<close> and its outcome.\<close>

definition result_of :: "nat \<Rightarrow> agent \<Rightarrow> exn + pystr \<Rightarrow> result" where
  "result_of i a r =
     (case r of
        Inr out \<Rightarrow> \<lparr>res_agent = agent_name_of a i, res_status = lit ''success'', res_output = out\<rparr>
      | Inl e \<Rightarrow> \<lparr>res_agent = agent_name_of a i, res_status = lit ''error'',
                  res_output = lit ''Error: '' @ exn_str e\<rparr>)"

fun results_from :: "nat \<Rightarrow> agent list \<Rightarrow> (exn + pystr) list \<Rightarrow> result list" where
  "results_from i (a # as) (r # rs) = result_of i a r # results_from (Suc i) as rs"
| "results_from i _ _ = []"

text \<open>The \<open>run_agent\<close> calls of a trace, in order, each with the context it was given.\<close>

fun run_calls :: "agent_event list \<Rightarrow> (agent \<times> agent_context) list" where
  "run_calls [] = []"
| "run_calls (RunAgent a c # evs) = (a, c) # run_calls evs"
| "run_calls (_ # evs) = run_calls evs"

section \<open>Concrete services for evaluation\<close>

text \<open>
  Three instances of the external services, with a call counter as the world.
  \<open>ok_api\<close> answers every call; with \<open>copy_failing_api\<close> the document copy raises and
  the sheet answers; with \<open>failing_api\<close> the copy raises and so does every write to the
  sheet.
\<close>

definition ok_api :: "nat google_utils" where
  "ok_api =
     \<lparr>copy_gdoc = (\<lambda>template_id filename folder w. (Inr (lit ''doc-1''), Suc w)),
      replace_placeholders = (\<lambda>doc_id mapping w. (Inr (), Suc w)),
      write_back = (\<lambda>sheet_id row_index updates w. (Inr (), Suc w)),
      now_str = (\<lambda>w. lit ''2025-01-01 09:00:00'')\<rparr>"

definition copy_failing_api :: "nat google_utils" where
  "copy_failing_api =
     ok_api\<lparr>copy_gdoc := (\<lambda>template_id filename folder w.
                              (Inl (Exception (lit ''template not found'')), Suc w))\<rparr>"

definition failing_api :: "nat google_utils" where
  "failing_api =
     copy_failing_api\<lparr>write_back := (\<lambda>sheet_id row_index updates w.
                                          (Inl (Exception (lit ''sheet unavailable'')), Suc w))\<rparr>"

definition example_inputs :: gen_inputs where
  "example_inputs =
     \<lparr>spreadsheet_id = lit ''sheet-1'', template_id = lit ''tpl-1'', dest_folder_id = None,
      gen_mode = lit ''Rows with Generate=TRUE'', create_pdf = True,
      custom_filename = lit ''{{Company}} - {{Industry}} Report'', manual_sel = []\<rparr>"

definition example_row :: "pystr \<Rightarrow> row" where
  "example_row company =
     [(lit ''Company'', PStr company), (lit ''Industry'', PStr (lit ''Tech'')),
      (lit ''Generate'', PStr (lit ''TRUE'')), (lit ''Doc URL'', PStr [])]"

definition example_df :: dataframe where
  "example_df =
     \<lparr>columns = [lit ''Company'', lit ''Industry'', lit ''Generate'', lit ''Doc URL''],
      rows = [(0, example_row (lit ''Acme'')), (1, example_row (lit ''Bolt''))]\<rparr>"

definition start_state :: "nat gen_state" where
  "start_state = \<lparr>world = 0, trace = [], success_count = 0, error_count = 0\<rparr>"

text \<open>
  For the agents runner: a provider that answers the first agent and raises on the
  second, leaving the context dictionary alone; a provider that writes a key into the
  dictionary it is given; and a stand-in for \<open>json.dumps\<close>.
\<close>

definition example_agents :: "agent list" where
  "example_agents =
     [[(lit ''id'', PStr (lit ''data_validator'')), (lit ''name'', PStr (lit ''Validator''))],
      [(lit ''id'', PStr (lit ''summarizer''))],
      [(lit ''name'', PStr (lit ''Trends''))]]"

definition example_llm :: "nat llm_providers" where
  "example_llm =
     \<lparr>run_agent = (\<lambda>a ctx w.
        (if dict_get a (lit ''id'') PNone = PStr (lit ''summarizer'')
         then Inl (Exception (lit ''rate limit''))
         else Inr (lit ''ok: '' @ dict_get ctx (lit ''required_fields_csv'') []), ctx, Suc w))\<rparr>"

definition writing_llm :: "nat llm_providers" where
  "writing_llm =
     \<lparr>run_agent = (\<lambda>a ctx w.
        (Inr (lit ''ok''), dict_set ctx (lit ''row_json'') (lit ''{}''), Suc w))\<rparr>"

definition example_dumps :: "row \<Rightarrow> exn + pystr" where
  "example_dumps r = Inr (lit ''{...}'')"

definition run_start :: "nat run_state" where
  "run_start = \<lparr>llm_world = 0, shown = [], results = []\<rparr>"

text \<open>A sheet with one finished row, one failed row, one blank status and one missing cell.\<close>

definition status_df :: dataframe where
  "status_df =
     \<lparr>columns = [lit ''Company'', lit ''Status''],
      rows = [(0, [(lit ''Company'', PStr (lit ''Acme'')), (lit ''Status'', PStr (lit ''Done''))]),
              (1, [(lit ''Company'', PStr (lit ''Bolt'')),
                   (lit ''Status'', PStr (lit ''Error: template not found''))]),
              (2, [(lit ''Company'', PStr (lit ''Core'')), (lit ''Status'', PStr [])]),
              (3, [(lit ''Company'', PStr (lit ''Dune'')), (lit ''Status'', PNaN)])]\<rparr>"

section \<open>Verification: status badges\<close>

lemma missing_not_done_or_error:
  "\<not> prefix (lit ''done'') (py_lower (py_str PNaN))"
  "\<not> prefix (lit ''done'') (py_lower (py_str PNone))"
  "\<not> prefix (lit ''error'') (py_lower (py_str PNaN))"
  "\<not> prefix (lit ''error'') (py_lower (py_str PNone))"
  by (simp_all add: lit_def py_lower_def lower_cp_def)

lemma done_not_error: "prefix (lit ''done'') s \<Longrightarrow> \<not> prefix (lit ''error'') s"
  by (auto simp: lit_def prefix_def)

lemma done_or_error_not_first_branch:
  assumes "prefix (lit ''done'') (py_lower (py_str status)) \<or>
           prefix (lit ''error'') (py_lower (py_str status))"
  shows "\<not> (isna status \<or> status = PStr [])"
proof (cases status)
  case (PStr s)
  with assms show ?thesis by (auto simp: py_lower_def lit_def)
next
  case PNaN
  with assms missing_not_done_or_error show ?thesis by auto
next
  case PNone
  with assms missing_not_done_or_error show ?thesis by auto
qed simp_all

lemma render_status_badge_branches:
  "(isna status \<or> status = PStr [] \<longrightarrow>
      render_status_badge status = badge (lit ''status-pending'') (lit ''Pending'')) \<and>
   (prefix (lit ''done'') (py_lower (py_str status)) \<longrightarrow>
      render_status_badge status = badge (lit ''status-success'') ([10003] @ lit '' Done'')) \<and>
   (prefix (lit ''error'') (py_lower (py_str status)) \<longrightarrow>
      render_status_badge status = badge (lit ''status-error'') ([10007] @ lit '' Error'')) \<and>
   (\<not> isna status \<and> status \<noteq> PStr [] \<and>
    \<not> prefix (lit ''done'') (py_lower (py_str status)) \<and>
    \<not> prefix (lit ''error'') (py_lower (py_str status)) \<longrightarrow>
      render_status_badge status = badge (lit ''status-pending'') (py_str status))"
proof (intro conjI impI)
  assume "isna status \<or> status = PStr []"
  then show "render_status_badge status = badge (lit ''status-pending'') (lit ''Pending'')"
    by (simp add: render_status_badge_def)
next
  assume d: "prefix (lit ''done'') (py_lower (py_str status))"
  then have "\<not> (isna status \<or> status = PStr [])"
    using done_or_error_not_first_branch by blast
  with d show "render_status_badge status =
      badge (lit ''status-success'') ([10003] @ lit '' Done'')"
    by (simp add: render_status_badge_def)
next
  assume e: "prefix (lit ''error'') (py_lower (py_str status))"
  then have "\<not> (isna status \<or> status = PStr [])"
    using done_or_error_not_first_branch by blast
  moreover from e done_not_error have "\<not> prefix (lit ''done'') (py_lower (py_str status))"
    by blast
  ultimately show "render_status_badge status =
      badge (lit ''status-error'') ([10007] @ lit '' Error'')"
    using e by (simp add: render_status_badge_def)
next
  assume "\<not> isna status \<and> status \<noteq> PStr [] \<and>
    \<not> prefix (lit ''done'') (py_lower (py_str status)) \<and>
    \<not> prefix (lit ''error'') (py_lower (py_str status))"
  then show "render_status_badge status = badge (lit ''status-pending'') (py_str status)"
    by (simp add: render_status_badge_def)
qed

text \<open>
  Claim C9. \<open>render_status_badge\<close> returns a badge for every cell value (no branch
  raises), and classifies it: a missing status (\<open>pd.isna\<close>: NaN, and \<open>None\<close> with it) or
  the empty string gives the span of class \<open>status-pending\<close> with text \<open>Pending\<close>; a
  status whose lowercased string form starts with \<open>done\<close> gives the span of class
  \<open>status-success\<close> with the text "check mark (U+2713), Done"; one that starts with
  \<open>error\<close> gives the span of class \<open>status-error\<close> with "ballot x (U+2717), Error";
  every other status gives the span of class \<open>status-pending\<close> around the status's own
  text.
\<close>

theorem render_status_badge_classifies:
  \<open>(isna status \<or> status = PStr [] \<longrightarrow>
      render_status_badge status =
        lit ''<span class="status-badge status-pending">Pending</span>'') \<and>
   (prefix (lit ''done'') (py_lower (py_str status)) \<longrightarrow>
      render_status_badge status =
        lit ''<span class="status-badge status-success">'' @ [10003] @ lit '' Done</span>'') \<and>
   (prefix (lit ''error'') (py_lower (py_str status)) \<longrightarrow>
      render_status_badge status =
        lit ''<span class="status-badge status-error">'' @ [10007] @ lit '' Error</span>'') \<and>
   (\<not> isna status \<and> status \<noteq> PStr [] \<and>
    \<not> prefix (lit ''done'') (py_lower (py_str status)) \<and>
    \<not> prefix (lit ''error'') (py_lower (py_str status)) \<longrightarrow>
      render_status_badge status =
        lit ''<span class="status-badge status-pending">'' @ py_str status @ lit ''</span>'')\<close>
proof -
  have b: \<open>badge c t = lit ''<span class="status-badge '' @ c @ lit ''">'' @ t @ lit ''</span>''\<close>
    for c t by (simp add: badge_def)
  have l: "lit (xs @ ys) = lit xs @ lit ys" for xs ys by (simp add: lit_def)
  have p: \<open>lit ''<span class="status-badge status-pending">'' =
           lit ''<span class="status-badge '' @ lit ''status-pending'' @ lit ''">''\<close>
    by (simp add: l [symmetric])
  have s: \<open>lit ''<span class="status-badge status-success">'' =
           lit ''<span class="status-badge '' @ lit ''status-success'' @ lit ''">''\<close>
    by (simp add: l [symmetric])
  have e: \<open>lit ''<span class="status-badge status-error">'' =
           lit ''<span class="status-badge '' @ lit ''status-error'' @ lit ''">''\<close>
    by (simp add: l [symmetric])
  have p': \<open>lit ''<span class="status-badge status-pending">Pending</span>'' =
            lit ''<span class="status-badge '' @ lit ''status-pending'' @ lit ''">''
              @ lit ''Pending'' @ lit ''</span>''\<close>
    by (simp add: l [symmetric])
  have d': \<open>lit '' Done</span>'' = lit '' Done'' @ lit ''</span>''\<close>
    by (simp add: l [symmetric])
  have e': \<open>lit '' Error</span>'' = lit '' Error'' @ lit ''</span>''\<close>
    by (simp add: l [symmetric])
  from render_status_badge_branches [of status] show ?thesis
    unfolding b p s e p' d' e' by simp
qed

theorem render_status_badge_classifies_witness:
  \<open>render_status_badge PNaN = lit ''<span class="status-badge status-pending">Pending</span>'' \<and>
   render_status_badge (PStr (lit ''DONE 12:00'')) =
     lit ''<span class="status-badge status-success">'' @ [10003] @ lit '' Done</span>'' \<and>
   render_status_badge (PStr (lit ''Error: quota'')) =
     lit ''<span class="status-badge status-error">'' @ [10007] @ lit '' Error</span>'' \<and>
   render_status_badge (PStr (lit ''Queued'')) =
     lit ''<span class="status-badge status-pending">Queued</span>''\<close>
  using render_status_badge_classifies [of PNaN]
    render_status_badge_classifies [of "PStr (lit ''DONE 12:00'')"]
    render_status_badge_classifies [of "PStr (lit ''Error: quota'')"]
    render_status_badge_classifies [of "PStr (lit ''Queued'')"]
  by (simp add: lit_def py_lower_def lower_cp_def)

section \<open>Verification: themes\<close>

lemma themes_complete:
  "list_all (\<lambda>(n, t). list_all (\<lambda>k. map_of t k \<noteq> None) theme_keys) THEMES"
  by (simp add: THEMES_def theme_keys_def lit_def)

lemma getitems_total:
  "list_all (\<lambda>k. map_of t k \<noteq> None) ks \<Longrightarrow> \<exists>vs. getitems t ks = Inr vs"
  by (induction ks) (auto simp: dict_getitem_def)

lemma cyber_neon_present: "\<exists>t. map_of THEMES (lit ''Cyber Neon'') = Some t"
  by (simp add: THEMES_def lit_def)

lemma getitems_values:
  "list_all (\<lambda>k. map_of t k \<noteq> None) ks \<Longrightarrow>
     \<exists>vs. getitems t ks = Inr vs \<and> map Some vs = map (map_of t) ks"
  by (induction ks) (auto simp: dict_getitem_def)

text \<open>
  Claim C10. \<open>apply_theme\<close> is total over theme names. For every name the theme it
  styles with is \<open>THEMES[name]\<close> when the name is a key of \<open>THEMES\<close>, and the theme
  stored under \<open>"Cyber Neon"\<close> otherwise; the six colours that the style sheet reads
  (primary, secondary, background, surface, text, accent) are the entries of that theme,
  and none of the reads raises.
\<close>

theorem apply_theme_total:
  "\<exists>theme p s b f t a.
     (case map_of THEMES theme_name of
        Some named \<Rightarrow> theme = named
      | None \<Rightarrow> map_of THEMES (lit ''Cyber Neon'') = Some theme) \<and>
     select_theme theme_name = Inr theme \<and>
     map_of theme (lit ''primary'') = Some p \<and>
     map_of theme (lit ''secondary'') = Some s \<and>
     map_of theme (lit ''background'') = Some b \<and>
     map_of theme (lit ''surface'') = Some f \<and>
     map_of theme (lit ''text'') = Some t \<and>
     map_of theme (lit ''accent'') = Some a \<and>
     apply_theme theme_name = Inr [p, s, b, f, t, a]"
proof -
  from cyber_neon_present obtain c where c: "map_of THEMES (lit ''Cyber Neon'') = Some c" ..
  define theme where "theme = (case map_of THEMES theme_name of Some named \<Rightarrow> named | None \<Rightarrow> c)"
  have sel: "select_theme theme_name = Inr theme"
    using c by (simp add: select_theme_def dict_getitem_def dict_get_def theme_def)
  have which: "(case map_of THEMES theme_name of
        Some named \<Rightarrow> theme = named
      | None \<Rightarrow> map_of THEMES (lit ''Cyber Neon'') = Some theme)"
    using c by (simp add: theme_def split: option.splits)
  have "\<exists>n. map_of THEMES n = Some theme"
    using c by (cases "map_of THEMES theme_name") (auto simp: theme_def)
  then obtain n where "(n, theme) \<in> set THEMES" by (blast dest: map_of_SomeD)
  with themes_complete have "list_all (\<lambda>k. map_of theme k \<noteq> None) theme_keys"
    by (auto simp: list_all_iff)
  from getitems_values [OF this] obtain vs where
    g: "getitems theme theme_keys = Inr vs" and m: "map Some vs = map (map_of theme) theme_keys"
    by blast
  from m obtain p s b f t a where vs: "vs = [p, s, b, f, t, a]"
    and "map_of theme (lit ''primary'') = Some p" "map_of theme (lit ''secondary'') = Some s"
      "map_of theme (lit ''background'') = Some b" "map_of theme (lit ''surface'') = Some f"
      "map_of theme (lit ''text'') = Some t" "map_of theme (lit ''accent'') = Some a"
    by (auto simp: theme_keys_def map_eq_Cons_conv)
  moreover from sel g vs have "apply_theme theme_name = Inr [p, s, b, f, t, a]"
    by (simp add: apply_theme_def)
  ultimately show ?thesis using which sel by blast
qed

lemma theme_lookups:
  "map_of THEMES (lit ''No Such Theme'') = None"
  "map_of THEMES (lit ''Cyber Neon'') =
     Some [(lit ''primary'', lit ''#00ffff''), (lit ''secondary'', lit ''#ff00ff''),
           (lit ''background'', lit ''#0a0e27''), (lit ''surface'', lit ''#1a1f3a''),
           (lit ''text'', lit ''#e0e0e0''), (lit ''accent'', lit ''#00ff88'')]"
  "map_of THEMES (lit ''Ocean Depth'') =
     Some [(lit ''primary'', lit ''#0077be''), (lit ''secondary'', lit ''#00b4d8''),
           (lit ''background'', lit ''#011627''), (lit ''surface'', lit ''#1a2332''),
           (lit ''text'', lit ''#f1f1f1''), (lit ''accent'', lit ''#48cae4'')]"
  by (simp_all add: THEMES_def lit_def)

theorem apply_theme_total_witness:
  "apply_theme (lit ''No Such Theme'') =
     Inr [lit ''#00ffff'', lit ''#ff00ff'', lit ''#0a0e27'', lit ''#1a1f3a'', lit ''#e0e0e0'',
          lit ''#00ff88''] \<and>
   apply_theme (lit ''Ocean Depth'') =
     Inr [lit ''#0077be'', lit ''#00b4d8'', lit ''#011627'', lit ''#1a2332'', lit ''#f1f1f1'',
          lit ''#48cae4'']"
proof -
  have k: "lit ''secondary'' \<noteq> lit ''primary''" "lit ''background'' \<noteq> lit ''primary''"
    "lit ''background'' \<noteq> lit ''secondary''" "lit ''surface'' \<noteq> lit ''primary''"
    "lit ''surface'' \<noteq> lit ''secondary''" "lit ''surface'' \<noteq> lit ''background''"
    "lit ''text'' \<noteq> lit ''primary''" "lit ''text'' \<noteq> lit ''secondary''"
    "lit ''text'' \<noteq> lit ''background''" "lit ''text'' \<noteq> lit ''surface''"
    "lit ''accent'' \<noteq> lit ''primary''" "lit ''accent'' \<noteq> lit ''secondary''"
    "lit ''accent'' \<noteq> lit ''background''" "lit ''accent'' \<noteq> lit ''surface''"
    "lit ''accent'' \<noteq> lit ''text''"
    by (simp_all add: lit_def)
  have "apply_theme (lit ''No Such Theme'') =
     Inr [lit ''#00ffff'', lit ''#ff00ff'', lit ''#0a0e27'', lit ''#1a1f3a'', lit ''#e0e0e0'',
          lit ''#00ff88'']"
    using apply_theme_total [of "lit ''No Such Theme''"] k
    by (auto simp: theme_lookups)
  moreover have "apply_theme (lit ''Ocean Depth'') =
     Inr [lit ''#0077be'', lit ''#00b4d8'', lit ''#011627'', lit ''#1a2332'', lit ''#f1f1f1'',
          lit ''#48cae4'']"
    using apply_theme_total [of "lit ''Ocean Depth''"] k
    by (auto simp: theme_lookups)
  ultimately show ?thesis by simp
qed

section \<open>Verification: dashboard metrics\<close>

lemma count_rows:
  "length (filter P (status_strings df)) =
     card {i. i < length (rows df) \<and> P (py_str (dict_get (snd (rows df ! i)) STATUS_COL PNaN))}"
proof -
  have "length (filter P (status_strings df)) =
          card {i. i < length (status_strings df) \<and> P (status_strings df ! i)}"
    by (rule length_filter_conv_card)
  also have "{i. i < length (status_strings df) \<and> P (status_strings df ! i)} =
     {i. i < length (rows df) \<and> P (py_str (dict_get (snd (rows df ! i)) STATUS_COL PNaN))}"
    by (auto simp: status_strings_def split_beta)
  finally show ?thesis .
qed

text \<open>
  Claim C4. The dashboard metrics, computed from the Status column when the frame is not
  empty and has that column: \<open>total_rows\<close> is the number of rows, \<open>done_count\<close> the
  number of rows whose Status, as a string, starts with \<open>Done\<close>, \<open>error_count\<close> the number
  starting with \<open>Error\<close>, \<open>pending_count\<close> is \<open>total_rows - done_count - error_count\<close>,
  and \<open>success_rate\<close> is \<open>done_count / total_rows * 100\<close>, and 0 when \<open>total_rows\<close> is 0.
\<close>

theorem dashboard_metrics_spec:
  "total_rows df = int (length (rows df)) \<and>
   done_count df =
     int (card {i. i < length (rows df) \<and>
                   prefix (lit ''Done'') (py_str (dict_get (snd (rows df ! i)) STATUS_COL PNaN))}) \<and>
   dash_error_count df =
     int (card {i. i < length (rows df) \<and>
                   prefix (lit ''Error'') (py_str (dict_get (snd (rows df ! i)) STATUS_COL PNaN))}) \<and>
   pending_count df = total_rows df - done_count df - dash_error_count df \<and>
   success_rate df =
     (if total_rows df = 0 then 0
      else of_int (done_count df) / of_int (total_rows df) * 100) \<and>
   dashboard_metrics df =
     (if \<not> df_empty df \<and> STATUS_COL \<in> set (columns df)
      then Some (total_rows df, done_count df, dash_error_count df, pending_count df,
                 success_rate df)
      else None)"
  by (simp add: total_rows_def df_len_def done_count_def dash_error_count_def count_rows
      pending_count_def success_rate_def dashboard_metrics_def metrics_shown_def)

lemma dashboard_metrics_example:
  "dashboard_metrics status_df = Some (4, 1, 1, 2, 25)"
  by (simp add: dashboard_metrics_def metrics_shown_def df_empty_def total_rows_def df_len_def
      done_count_def dash_error_count_def pending_count_def success_rate_def status_strings_def
      status_df_def STATUS_COL_def dict_get_def lit_def)

section \<open>Verification: row selection\<close>



section \<open>Verification: filename substitution\<close>

lemma prefix_take_append:
  assumes "prefix old (xs @ ys)" "length old \<le> length xs + n"
  shows "prefix old (xs @ take n ys)"
proof -
  from assms(1) have "old = take (length old) (xs @ ys)"
    by (metis append_eq_conv_conj prefix_def)
  also have "\<dots> = take (length old) (xs @ take n ys)"
    using assms(2) by (auto simp: min_def)
  finally have "old = take (length old) (xs @ take n ys)" .
  then show ?thesis by (metis take_is_prefix)
qed

text \<open>A text in which \<open>old\<close> does not occur is left as it is.\<close>

lemma replace_nonempty_absent:
  "\<not> sublist old s \<Longrightarrow> replace_nonempty s old new = s"
proof (induction s)
  case Nil
  show ?case by simp
next
  case (Cons c s)
  then have "\<not> prefix old (c # s)" "\<not> sublist old s"
    by (auto simp: sublist_Cons_right)
  with Cons.IH show ?case by simp
qed

text \<open>
  The leftmost occurrence: when no occurrence of \<open>old\<close> starts inside \<open>p\<close>, the scan
  copies \<open>p\<close>, writes \<open>new\<close> for the occurrence and goes on behind it.
\<close>

lemma replace_nonempty_first:
  assumes "old \<noteq> []" "\<not> sublist old (p @ butlast old)"
  shows "replace_nonempty (p @ old @ r) old new = p @ new @ replace_nonempty r old new"
  using assms(2)
proof (induction p)
  case Nil
  from assms(1) obtain c old' where old: "old = c # old'" by (cases old) auto
  then show ?case by simp
next
  case (Cons a p)
  have "\<not> prefix old ((a # p) @ old @ r)"
  proof
    assume "prefix old ((a # p) @ old @ r)"
    moreover have "length old \<le> length (a # p) + (length old - 1)" by simp
    ultimately have "prefix old ((a # p) @ take (length old - 1) (old @ r))"
      by (rule prefix_take_append)
    then have "prefix old ((a # p) @ butlast old)"
      using assms(1) by (simp add: butlast_conv_take)
    with Cons.prems show False by auto
  qed
  moreover from Cons.prems have "\<not> sublist old (p @ butlast old)"
    by (auto simp: sublist_Cons_right)
  ultimately show ?case using Cons.IH by simp
qed

text \<open>All occurrences: a text cut at its occurrences of \<open>old\<close> has every one replaced.\<close>

lemma replace_nonempty_pieces:
  assumes "old \<noteq> []" "\<forall>p\<in>set ps. \<not> sublist old (p @ butlast old)" "\<not> sublist old rest"
  shows "replace_nonempty (concat (map (\<lambda>p. p @ old) ps) @ rest) old new =
           concat (map (\<lambda>p. p @ new) ps) @ rest"
  using assms(2)
proof (induction ps)
  case Nil
  with assms(3) show ?case by (simp add: replace_nonempty_absent)
next
  case (Cons p ps)
  then have "replace_nonempty (p @ old @ (concat (map (\<lambda>p. p @ old) ps) @ rest)) old new =
      p @ new @ replace_nonempty (concat (map (\<lambda>p. p @ old) ps) @ rest) old new"
    using assms(1) by (intro replace_nonempty_first) auto
  with Cons show ?case by simp
qed

lemma placeholder_nonempty: "placeholder col \<noteq> []"
  by (simp add: placeholder_def lit_def)

lemma build_filename_unchanged:
  "\<forall>c\<in>set cols. \<not> sublist (placeholder c) pattern \<Longrightarrow>
     build_filename pattern cols row = pattern"
  unfolding build_filename_def
  by (induction cols) (simp_all add: py_replace_def placeholder_nonempty replace_nonempty_absent)

lemma placeholder_text: "lit ''{{'' @ col @ lit ''}}'' = placeholder col"
  by (simp add: placeholder_def)

text \<open>
  Claim C6. The file name is obtained from the user's pattern by string replacement
  alone: the columns of the dataframe are taken in order, and for each the text
  \<open>"{{"\<close> + column name + \<open>"}}"\<close> is replaced, wherever it occurs, by the row's value
  for that column as a string. For one column: a pattern cut at the occurrences of that
  text into \<open>pieces\<close> and \<open>rest\<close> comes back with the value in the place of each
  occurrence. A pattern in which no such text occurs for any column is returned
  unchanged.
\<close>

theorem filename_substitution:
  "build_filename pattern [] row = pattern \<and>
   build_filename pattern (col # cols) row =
     build_filename
       (py_replace pattern (lit ''{{'' @ col @ lit ''}}'') (py_str (dict_get row col (PStr []))))
       cols row \<and>
   ((\<forall>p\<in>set pieces.
       \<not> sublist (lit ''{{'' @ col @ lit ''}}'') (p @ butlast (lit ''{{'' @ col @ lit ''}}''))) \<and>
    \<not> sublist (lit ''{{'' @ col @ lit ''}}'') rest \<longrightarrow>
      build_filename (concat (map (\<lambda>p. p @ lit ''{{'' @ col @ lit ''}}'') pieces) @ rest)
        [col] row =
        concat (map (\<lambda>p. p @ py_str (dict_get row col (PStr []))) pieces) @ rest) \<and>
   ((\<forall>c\<in>set cols. \<not> sublist (lit ''{{'' @ c @ lit ''}}'') pattern) \<longrightarrow>
      build_filename pattern cols row = pattern)"
proof (intro conjI impI)
  show "build_filename pattern [] row = pattern"
    by (simp add: build_filename_def)
  show "build_filename pattern (col # cols) row =
     build_filename
       (py_replace pattern (lit ''{{'' @ col @ lit ''}}'') (py_str (dict_get row col (PStr []))))
       cols row"
    by (simp add: build_filename_def placeholder_def)
next
  assume "(\<forall>p\<in>set pieces.
       \<not> sublist (lit ''{{'' @ col @ lit ''}}'') (p @ butlast (lit ''{{'' @ col @ lit ''}}''))) \<and>
    \<not> sublist (lit ''{{'' @ col @ lit ''}}'') rest"
  then have "(\<forall>p\<in>set pieces. \<not> sublist (placeholder col) (p @ butlast (placeholder col))) \<and>
    \<not> sublist (placeholder col) rest"
    unfolding placeholder_text .
  then have "py_replace (concat (map (\<lambda>p. p @ placeholder col) pieces) @ rest)
        (placeholder col) (py_str (dict_get row col (PStr []))) =
      concat (map (\<lambda>p. p @ py_str (dict_get row col (PStr []))) pieces) @ rest"
    using replace_nonempty_pieces [OF placeholder_nonempty]
    by (simp add: py_replace_def placeholder_nonempty)
  then show "build_filename (concat (map (\<lambda>p. p @ lit ''{{'' @ col @ lit ''}}'') pieces) @ rest)
        [col] row =
      concat (map (\<lambda>p. p @ py_str (dict_get row col (PStr []))) pieces) @ rest"
    unfolding placeholder_text by (simp add: build_filename_def)
next
  assume "\<forall>c\<in>set cols. \<not> sublist (lit ''{{'' @ c @ lit ''}}'') pattern"
  then have "\<forall>c\<in>set cols. \<not> sublist (placeholder c) pattern"
    unfolding placeholder_text .
  then show "build_filename pattern cols row = pattern"
    by (rule build_filename_unchanged)
qed

theorem filename_substitution_witness:
  "build_filename (lit ''From {{Company}} to {{Company}}!'') [lit ''Company'']
     (example_row (lit ''Acme'')) = lit ''From Acme to Acme!'' \<and>
   build_filename (lit ''{{Company}} - {{Industry}} Report'') [lit ''Company'', lit ''Industry'']
     (example_row (lit ''Acme'')) = lit ''Acme - Tech Report'' \<and>
   build_filename (lit ''Quarterly Report'') [lit ''Company'', lit ''Industry'']
     (example_row (lit ''Acme'')) = lit ''Quarterly Report''"
proof -
  have a: "\<forall>p\<in>set [lit ''From '', lit '' to ''].
      \<not> sublist (lit ''{{'' @ lit ''Company'' @ lit ''}}'')
          (p @ butlast (lit ''{{'' @ lit ''Company'' @ lit ''}}''))"
    by (simp add: lit_def sublist_Cons_right)
  have b: "\<not> sublist (lit ''{{'' @ lit ''Company'' @ lit ''}}'') (lit ''!'')"
    by (simp add: lit_def sublist_Cons_right)
  have c: "\<forall>c\<in>set [lit ''Company'', lit ''Industry''].
      \<not> sublist (lit ''{{'' @ c @ lit ''}}'') (lit ''Quarterly Report'')"
    by (simp add: lit_def sublist_Cons_right)
  note one = filename_substitution [of "lit ''Quarterly Report''" "example_row (lit ''Acme'')"
      "lit ''Company''" "[lit ''Company'', lit ''Industry'']" "[lit ''From '', lit '' to '']"
      "lit ''!''"]
  from one a b have "build_filename
      (concat (map (\<lambda>p. p @ lit ''{{'' @ lit ''Company'' @ lit ''}}'') [lit ''From '', lit '' to ''])
         @ lit ''!'')
      [lit ''Company''] (example_row (lit ''Acme'')) =
      concat (map (\<lambda>p. p @ py_str (dict_get (example_row (lit ''Acme'')) (lit ''Company'') (PStr [])))
                [lit ''From '', lit '' to '']) @ lit ''!''"
    by blast
  then have first: "build_filename (lit ''From {{Company}} to {{Company}}!'') [lit ''Company'']
     (example_row (lit ''Acme'')) = lit ''From Acme to Acme!''"
    by (simp add: lit_def example_row_def dict_get_def)
  from one c have third: "build_filename (lit ''Quarterly Report'')
      [lit ''Company'', lit ''Industry''] (example_row (lit ''Acme'')) = lit ''Quarterly Report''"
    by blast
  note two = filename_substitution [of "lit ''{{Company}} - {{Industry}} Report''"
      "example_row (lit ''Acme'')" "lit ''Company''" "[lit ''Industry'']"]
  have r1: "py_replace (lit ''{{Company}} - {{Industry}} Report'')
      (lit ''{{'' @ lit ''Company'' @ lit ''}}'')
      (py_str (dict_get (example_row (lit ''Acme'')) (lit ''Company'') (PStr []))) =
      lit ''Acme - {{Industry}} Report''"
    by (simp add: py_replace_def example_row_def dict_get_def lit_def)
  have r2: "build_filename (lit ''Acme - {{Industry}} Report'') [lit ''Industry'']
      (example_row (lit ''Acme'')) = lit ''Acme - Tech Report''"
    by (simp add: build_filename_def placeholder_def py_replace_def example_row_def dict_get_def
        lit_def)
  from two r1 r2 have second: "build_filename (lit ''{{Company}} - {{Industry}} Report'')
      [lit ''Company'', lit ''Industry''] (example_row (lit ''Acme'')) = lit ''Acme - Tech Report''"
    by simp
  from first second third show ?thesis by simp
qed

section \<open>Verification: the generation loop\<close>

subsection \<open>Dictionaries and the written values\<close>

lemma map_of_dict_set: "map_of (dict_set d k v) = (map_of d)(k \<mapsto> v)"
  by (induction d k v rule: dict_set.induct) auto

lemma keys_dict_set: "fst ` set (dict_set d k v) = insert k (fst ` set d)"
  by (induction d k v rule: dict_set.induct) auto

lemma dict_get_dict_set: "dict_get (dict_set d k v) k dflt = v"
  by (simp add: dict_get_def map_of_dict_set)

lemma map_of_fold_dict_set:
  "map_of (fold (\<lambda>col m. dict_set m col (g col)) cols m0) c =
     (if c \<in> set cols then Some (g c) else map_of m0 c)"
  by (induction cols arbitrary: m0) (auto simp: map_of_dict_set)

lemma keys_fold_dict_set:
  "fst ` set (fold (\<lambda>col m. dict_set m col (g col)) cols m0) = fst ` set m0 \<union> set cols"
  by (induction cols arbitrary: m0) (auto simp: keys_dict_set)

lemma build_mapping_lookup:
  "col \<in> set cols \<Longrightarrow> map_of (build_mapping cols row) col = Some (dict_get row col (PStr []))"
  by (simp add: build_mapping_def map_of_fold_dict_set)

lemma build_mapping_keys: "fst ` set (build_mapping cols row) = set cols"
  by (simp add: build_mapping_def keys_fold_dict_set)

lemma column_literals_distinct:
  "STATUS_COL \<noteq> PDF_URL_COL" "URL_COL \<noteq> PDF_URL_COL" "TS_COL \<noteq> PDF_URL_COL"
  by (simp_all add: STATUS_COL_def URL_COL_def TS_COL_def PDF_URL_COL_def lit_def)

lemma build_updates_cells:
  "build_updates pdf new_doc_id ts =
     [(STATUS_COL, lit ''Done''),
      (URL_COL, lit ''https://docs.google.com/document/d/'' @ new_doc_id @ lit ''/edit''),
      (TS_COL, ts)]
     @ (if pdf
        then [(PDF_URL_COL,
               lit ''https://docs.google.com/document/d/'' @ new_doc_id @ lit ''/export?format=pdf'')]
        else [])"
  using column_literals_distinct
  by (simp add: build_updates_def doc_url_of_def pdf_url_of_def Let_def)

lemma py_strip_nonempty:
  assumes "s \<noteq> []" "\<not> is_space (hd s)"
  shows "py_strip s \<noteq> []"
proof -
  from assms obtain c cs where s: "s = c # cs" "\<not> is_space c" by (cases s) auto
  then have "dropWhile is_space s = s" by simp
  moreover have "dropWhile is_space (rev s) \<noteq> []"
    using s by (auto simp: dropWhile_eq_Nil_conv)
  ultimately show ?thesis by (simp add: py_strip_def)
qed

lemma doc_url_not_blank: "py_strip (doc_url_of new_doc_id) \<noteq> []"
  by (rule py_strip_nonempty) (simp_all add: doc_url_of_def lit_def is_space_def)

subsection \<open>The try block, outcome by outcome\<close>

lemma try_block_copy_raises:
  assumes "copy_gdoc api (template_id inp) (build_filename (custom_filename inp) cols row)
             (dest_folder_id inp) (world st) = (Inl e, w1)"
  shows "try_block api inp cols ri row st =
           (Inl e, st\<lparr>world := w1,
                       trace := trace st @
                         [CopyGdoc (template_id inp) (build_filename (custom_filename inp) cols row)
                            (dest_folder_id inp)]\<rparr>)"
  using assms by (simp add: try_block_def Let_def add_event_def)

lemma try_block_replace_raises:
  assumes "copy_gdoc api (template_id inp) (build_filename (custom_filename inp) cols row)
             (dest_folder_id inp) (world st) = (Inr new_doc_id, w1)"
    and "replace_placeholders api new_doc_id (build_mapping cols row) w1 = (Inl e, w2)"
  shows "try_block api inp cols ri row st =
           (Inl e, st\<lparr>world := w2,
                       trace := trace st @
                         [CopyGdoc (template_id inp) (build_filename (custom_filename inp) cols row)
                            (dest_folder_id inp),
                          ReplacePlaceholders new_doc_id (build_mapping cols row)]\<rparr>)"
  using assms by (simp add: try_block_def Let_def add_event_def)

lemma try_block_write_back_raises:
  assumes "copy_gdoc api (template_id inp) (build_filename (custom_filename inp) cols row)
             (dest_folder_id inp) (world st) = (Inr new_doc_id, w1)"
    and "replace_placeholders api new_doc_id (build_mapping cols row) w1 = (Inr u, w2)"
    and "write_back api (spreadsheet_id inp) ri
           (build_updates (create_pdf inp) new_doc_id (now_str api w2)) w2 = (Inl e, w3)"
  shows "try_block api inp cols ri row st =
           (Inl e, st\<lparr>world := w3,
                       trace := trace st @
                         [CopyGdoc (template_id inp) (build_filename (custom_filename inp) cols row)
                            (dest_folder_id inp),
                          ReplacePlaceholders new_doc_id (build_mapping cols row),
                          WriteBack (spreadsheet_id inp) ri
                            (build_updates (create_pdf inp) new_doc_id (now_str api w2))]\<rparr>)"
  using assms by (simp add: try_block_def Let_def add_event_def)

lemma try_block_returns:
  assumes "copy_gdoc api (template_id inp) (build_filename (custom_filename inp) cols row)
             (dest_folder_id inp) (world st) = (Inr new_doc_id, w1)"
    and "replace_placeholders api new_doc_id (build_mapping cols row) w1 = (Inr u, w2)"
    and "write_back api (spreadsheet_id inp) ri
           (build_updates (create_pdf inp) new_doc_id (now_str api w2)) w2 = (Inr u', w3)"
  shows "try_block api inp cols ri row st =
           (Inr (), st\<lparr>world := w3,
                        trace := trace st @
                          [CopyGdoc (template_id inp) (build_filename (custom_filename inp) cols row)
                             (dest_folder_id inp),
                           ReplacePlaceholders new_doc_id (build_mapping cols row),
                           WriteBack (spreadsheet_id inp) ri
                             (build_updates (create_pdf inp) new_doc_id (now_str api w2)),
                           StSuccess ([9989] @ lit '' Row '' @ str_int ri @ lit '': ''
                                       @ build_filename (custom_filename inp) cols row)],
                        success_count := success_count st + 1\<rparr>)"
  using assms by (simp add: try_block_def Let_def add_event_def)

text \<open>
  A try block that raised has issued one, two or three calls, each step once and in the
  order copy, substitute, write: nothing is attempted a second time.
\<close>

lemma try_block_raised_calls:
  assumes "try_block api inp cols ri row st = (Inl e, st1)"
  shows "\<exists>new_doc_id ts.
           trace st1 = trace st @
             [CopyGdoc (template_id inp) (build_filename (custom_filename inp) cols row)
                (dest_folder_id inp)] \<or>
           trace st1 = trace st @
             [CopyGdoc (template_id inp) (build_filename (custom_filename inp) cols row)
                (dest_folder_id inp),
              ReplacePlaceholders new_doc_id (build_mapping cols row)] \<or>
           trace st1 = trace st @
             [CopyGdoc (template_id inp) (build_filename (custom_filename inp) cols row)
                (dest_folder_id inp),
              ReplacePlaceholders new_doc_id (build_mapping cols row),
              WriteBack (spreadsheet_id inp) ri (build_updates (create_pdf inp) new_doc_id ts)]"
proof -
  obtain r1 w1 where c: "copy_gdoc api (template_id inp)
      (build_filename (custom_filename inp) cols row) (dest_folder_id inp) (world st) = (r1, w1)"
    by (cases "copy_gdoc api (template_id inp)
      (build_filename (custom_filename inp) cols row) (dest_folder_id inp) (world st)")
  show ?thesis
  proof (cases r1)
    case (Inl e1)
    with c assms try_block_copy_raises [of api inp cols row st e1 w1 ri] show ?thesis by auto
  next
    case (Inr new_doc_id)
    obtain r2 w2 where r: "replace_placeholders api new_doc_id (build_mapping cols row) w1 = (r2, w2)"
      by (cases "replace_placeholders api new_doc_id (build_mapping cols row) w1")
    show ?thesis
    proof (cases r2)
      case (Inl e2)
      with c r Inr assms
        try_block_replace_raises [of api inp cols row st new_doc_id w1 e2 w2 ri]
      show ?thesis by auto
    next
      case u: (Inr u)
      obtain r3 w3 where w: "write_back api (spreadsheet_id inp) ri
           (build_updates (create_pdf inp) new_doc_id (now_str api w2)) w2 = (r3, w3)"
        by (cases "write_back api (spreadsheet_id inp) ri
           (build_updates (create_pdf inp) new_doc_id (now_str api w2)) w2")
      show ?thesis
      proof (cases r3)
        case (Inl e3)
        with c r w Inr u assms
          try_block_write_back_raises [of api inp cols row st new_doc_id w1 u w2 ri e3 w3]
        show ?thesis by auto
      next
        case u': (Inr u')
        with c r w Inr u assms
          try_block_returns [of api inp cols row st new_doc_id w1 u w2 ri u' w3]
        show ?thesis by auto
      qed
    qed
  qed
qed

subsection \<open>The except block and the iteration\<close>

lemma except_block_returns:
  assumes "write_back api (spreadsheet_id inp) ri (error_updates e) (world st) = (Inr u, w)"
  shows "except_block api inp ri e st =
           (None, st\<lparr>world := w, error_count := error_count st + 1,
                      trace := trace st @
                        [WriteBack (spreadsheet_id inp) ri (error_updates e),
                         StError ([10060] @ lit '' Row '' @ str_int ri @ lit '': ''
                                   @ take 100 (exn_str e))]\<rparr>)"
  using assms by (simp add: except_block_def Let_def add_event_def)

lemma except_block_raises:
  assumes "write_back api (spreadsheet_id inp) ri (error_updates e) (world st) = (Inl e', w)"
  shows "except_block api inp ri e st =
           (Some e', st\<lparr>world := w, error_count := error_count st + 1,
                         trace := trace st @
                           [WriteBack (spreadsheet_id inp) ri (error_updates e)]\<rparr>)"
  using assms by (simp add: except_block_def Let_def add_event_def)

lemma loop_body_processed:
  assumes "selected inp idx row" "\<not> has_url row"
  shows "loop_body api inp df (idx, row) st =
     (case try_block api inp (columns df) (idx + 2) row st of
        (Inr u, st1) \<Rightarrow> (None, add_event (Progress (idx + 1) (df_len df)) st1)
      | (Inl e, st1) \<Rightarrow>
          (case except_block api inp (idx + 2) e st1 of
             (Some e', st2) \<Rightarrow> (Some e', st2)
           | (None, st2) \<Rightarrow> (None, add_event (Progress (idx + 1) (df_len df)) st2)))"
  using assms
  by (simp add: loop_body_def Let_def split: prod.splits sum.splits option.splits)

lemma loop_body_skips: "has_url row \<Longrightarrow> loop_body api inp df (idx, row) st = (None, st)"
  by (simp add: loop_body_def Let_def)

lemma generate_loop_skips:
  "\<forall>ir\<in>set irs. has_url (snd ir) \<Longrightarrow> generate_loop api inp df irs st = (None, st)"
proof (induction irs)
  case Nil
  show ?case by simp
next
  case (Cons ir irs)
  obtain idx row where ir: "ir = (idx, row)" by (cases ir)
  with Cons.prems have "loop_body api inp df ir st = (None, st)"
    by (simp add: loop_body_skips)
  with Cons show ?case by simp
qed

subsection \<open>Claims about the loop\<close>

text \<open>
  Claim C3. A row whose Doc URL cell is not empty after stripping is skipped whatever the
  selection mode: the iteration creates no document, writes no cell, and leaves the
  state as it was; a loop over rows that all carry a URL does nothing at all. The URL
  that a completed row received is not blank, so a row that a first run completed, read
  again with that URL in its Doc URL cell, is skipped by a second run.
\<close>

theorem idempotent_skip:
  "(has_url row \<longrightarrow> loop_body api inp df (idx, row) st = (None, st)) \<and>
   ((\<forall>ir\<in>set irs. has_url (snd ir)) \<longrightarrow> generate_loop api inp df irs st = (None, st)) \<and>
   has_url (dict_set row URL_COL (PStr (doc_url_of new_doc_id))) \<and>
   loop_body api inp df (idx, dict_set row URL_COL (PStr (doc_url_of new_doc_id))) st = (None, st)"
proof -
  have "has_url (dict_set row URL_COL (PStr (doc_url_of new_doc_id)))"
    by (simp add: has_url_def dict_get_dict_set doc_url_not_blank)
  then show ?thesis
    by (simp add: loop_body_skips generate_loop_skips)
qed

theorem idempotent_skip_witness:
  "loop_body ok_api example_inputs example_df
     (0, [(lit ''Generate'', PStr (lit ''TRUE'')), (lit ''Doc URL'', PStr (lit ''https://x''))])
     start_state = (None, start_state) \<and>
   generate_loop ok_api example_inputs example_df
     [(0, [(lit ''Generate'', PStr (lit ''TRUE'')), (lit ''Doc URL'', PStr (lit ''https://x''))])]
     start_state = (None, start_state)"
proof -
  have "has_url [(lit ''Generate'', PStr (lit ''TRUE'')), (lit ''Doc URL'', PStr (lit ''https://x''))]"
    by (simp add: has_url_def dict_get_def URL_COL_def py_strip_def is_space_def lit_def)
  with idempotent_skip [of "[(lit ''Generate'', PStr (lit ''TRUE'')),
          (lit ''Doc URL'', PStr (lit ''https://x''))]" ok_api example_inputs example_df 0
        start_state
        "[(0, [(lit ''Generate'', PStr (lit ''TRUE'')), (lit ''Doc URL'', PStr (lit ''https://x''))])]"]
  show ?thesis by simp
qed

text \<open>
  Claim C2. For a row that is selected and has no URL yet, with each external call
  returning: the iteration calls \<open>copy_gdoc\<close> on the template, then
  \<open>replace_placeholders\<close> on the copy with the mapping of every dataframe column to the
  row's value, then \<open>write_back\<close> for sheet row \<open>idx + 2\<close>, and nothing else in
  between. The written cells are Status = \<open>Done\<close>, Doc URL = the document URL built
  around the new document id, Generated At = the timestamp, and PDF URL exactly when PDF
  export is enabled.
\<close>

theorem pipeline_order:
  assumes "selected inp idx row" and "\<not> has_url row"
    and "copy_gdoc api (template_id inp) (build_filename (custom_filename inp) (columns df) row)
           (dest_folder_id inp) (world st) = (Inr new_doc_id, w1)"
    and "replace_placeholders api new_doc_id (build_mapping (columns df) row) w1 = (Inr (), w2)"
    and "write_back api (spreadsheet_id inp) (idx + 2)
           (build_updates (create_pdf inp) new_doc_id (now_str api w2)) w2 = (Inr (), w3)"
  shows "loop_body api inp df (idx, row) st =
           (None,
            st\<lparr>world := w3,
               trace := trace st @
                 [CopyGdoc (template_id inp)
                    (build_filename (custom_filename inp) (columns df) row) (dest_folder_id inp),
                  ReplacePlaceholders new_doc_id (build_mapping (columns df) row),
                  WriteBack (spreadsheet_id inp) (idx + 2)
                    (build_updates (create_pdf inp) new_doc_id (now_str api w2)),
                  StSuccess ([9989] @ lit '' Row '' @ str_int (idx + 2) @ lit '': ''
                              @ build_filename (custom_filename inp) (columns df) row),
                  Progress (idx + 1) (df_len df)],
               success_count := success_count st + 1\<rparr>) \<and>
         fst ` set (build_mapping (columns df) row) = set (columns df) \<and>
         (\<forall>col\<in>set (columns df).
            map_of (build_mapping (columns df) row) col = Some (dict_get row col (PStr []))) \<and>
         build_updates (create_pdf inp) new_doc_id (now_str api w2) =
           [(STATUS_COL, lit ''Done''),
            (URL_COL, lit ''https://docs.google.com/document/d/'' @ new_doc_id @ lit ''/edit''),
            (TS_COL, now_str api w2)]
           @ (if create_pdf inp
              then [(PDF_URL_COL, lit ''https://docs.google.com/document/d/'' @ new_doc_id
                                    @ lit ''/export?format=pdf'')]
              else [])"
proof (intro conjI ballI)
  show "loop_body api inp df (idx, row) st =
           (None,
            st\<lparr>world := w3,
               trace := trace st @
                 [CopyGdoc (template_id inp)
                    (build_filename (custom_filename inp) (columns df) row) (dest_folder_id inp),
                  ReplacePlaceholders new_doc_id (build_mapping (columns df) row),
                  WriteBack (spreadsheet_id inp) (idx + 2)
                    (build_updates (create_pdf inp) new_doc_id (now_str api w2)),
                  StSuccess ([9989] @ lit '' Row '' @ str_int (idx + 2) @ lit '': ''
                              @ build_filename (custom_filename inp) (columns df) row),
                  Progress (idx + 1) (df_len df)],
               success_count := success_count st + 1\<rparr>)"
    using assms(1,2) try_block_returns [OF assms(3,4,5)]
    by (simp add: loop_body_processed add_event_def)
  show "fst ` set (build_mapping (columns df) row) = set (columns df)"
    by (rule build_mapping_keys)
  show "map_of (build_mapping (columns df) row) col = Some (dict_get row col (PStr []))"
    if "col \<in> set (columns df)" for col
    using that by (rule build_mapping_lookup)
  show "build_updates (create_pdf inp) new_doc_id (now_str api w2) =
           [(STATUS_COL, lit ''Done''),
            (URL_COL, lit ''https://docs.google.com/document/d/'' @ new_doc_id @ lit ''/edit''),
            (TS_COL, now_str api w2)]
           @ (if create_pdf inp
              then [(PDF_URL_COL, lit ''https://docs.google.com/document/d/'' @ new_doc_id
                                    @ lit ''/export?format=pdf'')]
              else [])"
    by (rule build_updates_cells)
qed

lemma example_row_processed:
  "selected example_inputs idx (example_row company)" "\<not> has_url (example_row company)"
  by (simp_all add: selected_def has_url_def example_inputs_def example_row_def dict_get_def
      TRIGGER_COL_def URL_COL_def py_strip_def py_lower_def lower_cp_def is_space_def lit_def)

theorem pipeline_order_witness:
  "loop_body ok_api example_inputs example_df (0, example_row (lit ''Acme'')) start_state =
     (None,
      start_state\<lparr>world := 3,
         trace := trace start_state @
           [CopyGdoc (lit ''tpl-1'') (lit ''Acme - Tech Report'') None,
            ReplacePlaceholders (lit ''doc-1'') (build_mapping (columns example_df) (example_row (lit ''Acme''))),
            WriteBack (lit ''sheet-1'') 2
              (build_updates True (lit ''doc-1'') (lit ''2025-01-01 09:00:00'')),
            StSuccess ([9989] @ lit '' Row '' @ str_int 2 @ lit '': '' @ lit ''Acme - Tech Report''),
            Progress 1 (df_len example_df)],
         success_count := success_count start_state + 1\<rparr>) \<and>
   map_of (build_mapping (columns example_df) (example_row (lit ''Acme''))) (lit ''Company'') =
     Some (PStr (lit ''Acme''))"
proof -
  have f: "build_filename (custom_filename example_inputs) (columns example_df)
            (example_row (lit ''Acme'')) = lit ''Acme - Tech Report''"
    by (simp add: build_filename_def example_inputs_def example_df_def example_row_def
        py_replace_def placeholder_def dict_get_def lit_def)
  have c: "copy_gdoc ok_api (template_id example_inputs)
             (build_filename (custom_filename example_inputs) (columns example_df)
                (example_row (lit ''Acme'')))
             (dest_folder_id example_inputs) (world start_state) = (Inr (lit ''doc-1''), 1)"
    by (simp add: ok_api_def start_state_def)
  have r: "replace_placeholders ok_api (lit ''doc-1'')
             (build_mapping (columns example_df) (example_row (lit ''Acme''))) 1 = (Inr (), 2)"
    by (simp add: ok_api_def)
  have w: "write_back ok_api (spreadsheet_id example_inputs) (0 + 2)
             (build_updates (create_pdf example_inputs) (lit ''doc-1'') (now_str ok_api 2)) 2 =
             (Inr (), 3)"
    by (simp add: ok_api_def)
  have m: "lit ''Company'' \<in> set (columns example_df)"
    by (simp add: example_df_def)
  have g: "dict_get (example_row (lit ''Acme'')) (lit ''Company'') (PStr []) = PStr (lit ''Acme'')"
    by (simp add: example_row_def dict_get_def)
  from pipeline_order [OF example_row_processed c r w] f m g
  show ?thesis
    by (simp add: example_inputs_def ok_api_def)
qed

lemma generate_loop_append:
  "generate_loop api inp df (xs @ ys) st =
     (case generate_loop api inp df xs st of
        (Some e, st') \<Rightarrow> (Some e, st')
      | (None, st') \<Rightarrow> generate_loop api inp df ys st')"
  by (induction xs arbitrary: st) (auto split: prod.splits option.splits)

lemma loop_left_by_exception:
  assumes "selected inp idx row" and "\<not> has_url row"
    and "try_block api inp (columns df) (idx + 2) row st = (Inl e, st1)"
    and "write_back api (spreadsheet_id inp) (idx + 2)
           [(STATUS_COL, lit ''Error: '' @ take 100 (exn_str e))] (world st1) = (r, w)"
    and "r = Inl e'"
  shows "generate_loop api inp df ((idx, row) # irs) st =
      (Some e',
       st1\<lparr>world := w, error_count := error_count st1 + 1,
            trace := trace st1 @
              [WriteBack (spreadsheet_id inp) (idx + 2)
                 [(STATUS_COL, lit ''Error: '' @ take 100 (exn_str e))]]\<rparr>)"
proof -
  from assms(4,5) have "except_block api inp (idx + 2) e st1 =
      (Some e', st1\<lparr>world := w, error_count := error_count st1 + 1,
                    trace := trace st1 @
                      [WriteBack (spreadsheet_id inp) (idx + 2) (error_updates e)]\<rparr>)"
    by (intro except_block_raises) (simp add: error_updates_def)
  with assms(1,2,3) show ?thesis
    by (simp add: loop_body_processed error_updates_def)
qed

text \<open>
  Claim C1, as amended. When the try block of a selected row raises \<open>e\<close>, the block has
  issued each of its calls at most once (no retry), and the handler issues exactly one
  further call: \<open>write_back\<close> for that row with the single cell Status =
  \<open>"Error: "\<close> followed by the first 100 characters of the message of \<open>e\<close>. When this
  \<open>write_back\<close> returns, the iteration ends normally and the loop goes on with the next
  row. When it raises, the exception leaves the loop, no further row is processed, and
  the outer handler reports it as \<open>"Error loading data: "\<close> followed by its message.
\<close>

theorem error_branch_recovery:
  assumes "selected inp idx row" and "\<not> has_url row"
    and "try_block api inp (columns df) (idx + 2) row st = (Inl e, st1)"
    and "write_back api (spreadsheet_id inp) (idx + 2)
           [(STATUS_COL, lit ''Error: '' @ take 100 (exn_str e))] (world st1) = (r, w)"
  shows "(\<exists>new_doc_id ts.
            trace st1 = trace st @
              [CopyGdoc (template_id inp)
                 (build_filename (custom_filename inp) (columns df) row) (dest_folder_id inp)] \<or>
            trace st1 = trace st @
              [CopyGdoc (template_id inp)
                 (build_filename (custom_filename inp) (columns df) row) (dest_folder_id inp),
               ReplacePlaceholders new_doc_id (build_mapping (columns df) row)] \<or>
            trace st1 = trace st @
              [CopyGdoc (template_id inp)
                 (build_filename (custom_filename inp) (columns df) row) (dest_folder_id inp),
               ReplacePlaceholders new_doc_id (build_mapping (columns df) row),
               WriteBack (spreadsheet_id inp) (idx + 2)
                 (build_updates (create_pdf inp) new_doc_id ts)]) \<and>
         (\<forall>u. r = Inr u \<longrightarrow>
            generate_loop api inp df ((idx, row) # irs) st =
              generate_loop api inp df irs
                (st1\<lparr>world := w, error_count := error_count st1 + 1,
                     trace := trace st1 @
                       [WriteBack (spreadsheet_id inp) (idx + 2)
                          [(STATUS_COL, lit ''Error: '' @ take 100 (exn_str e))],
                        StError ([10060] @ lit '' Row '' @ str_int (idx + 2) @ lit '': ''
                                  @ take 100 (exn_str e)),
                        Progress (idx + 1) (df_len df)]\<rparr>)) \<and>
         (\<forall>e'. r = Inl e' \<longrightarrow>
            generate_loop api inp df ((idx, row) # irs) st =
              (Some e',
               st1\<lparr>world := w, error_count := error_count st1 + 1,
                    trace := trace st1 @
                      [WriteBack (spreadsheet_id inp) (idx + 2)
                         [(STATUS_COL, lit ''Error: '' @ take 100 (exn_str e))]]\<rparr>)) \<and>
         (\<forall>e' before w0.
            r = Inl e' \<and> rows df = before @ (idx, row) # irs \<and>
            generate_loop api inp df before
              \<lparr>world = w0, trace = [], success_count = 0, error_count = 0\<rparr> = (None, st)
            \<longrightarrow>
            generate_documents api inp df w0 =
              st1\<lparr>world := w, error_count := error_count st1 + 1,
                   trace := trace st1 @
                     [WriteBack (spreadsheet_id inp) (idx + 2)
                        [(STATUS_COL, lit ''Error: '' @ take 100 (exn_str e))],
                      StError (lit ''Error loading data: '' @ exn_str e')]\<rparr>)"
proof (intro conjI allI impI)
  show "\<exists>new_doc_id ts.
            trace st1 = trace st @
              [CopyGdoc (template_id inp)
                 (build_filename (custom_filename inp) (columns df) row) (dest_folder_id inp)] \<or>
            trace st1 = trace st @
              [CopyGdoc (template_id inp)
                 (build_filename (custom_filename inp) (columns df) row) (dest_folder_id inp),
               ReplacePlaceholders new_doc_id (build_mapping (columns df) row)] \<or>
            trace st1 = trace st @
              [CopyGdoc (template_id inp)
                 (build_filename (custom_filename inp) (columns df) row) (dest_folder_id inp),
               ReplacePlaceholders new_doc_id (build_mapping (columns df) row),
               WriteBack (spreadsheet_id inp) (idx + 2)
                 (build_updates (create_pdf inp) new_doc_id ts)]"
    using assms(3) by (rule try_block_raised_calls)
next
  fix u assume "r = Inr u"
  with assms(4) have "except_block api inp (idx + 2) e st1 =
      (None, st1\<lparr>world := w, error_count := error_count st1 + 1,
                 trace := trace st1 @
                   [WriteBack (spreadsheet_id inp) (idx + 2) (error_updates e),
                    StError ([10060] @ lit '' Row '' @ str_int (idx + 2) @ lit '': ''
                              @ take 100 (exn_str e))]\<rparr>)"
    by (intro except_block_returns) (simp add: error_updates_def)
  with assms(1,2,3)
  show "generate_loop api inp df ((idx, row) # irs) st =
      generate_loop api inp df irs
        (st1\<lparr>world := w, error_count := error_count st1 + 1,
             trace := trace st1 @
               [WriteBack (spreadsheet_id inp) (idx + 2)
                  [(STATUS_COL, lit ''Error: '' @ take 100 (exn_str e))],
                StError ([10060] @ lit '' Row '' @ str_int (idx + 2) @ lit '': ''
                          @ take 100 (exn_str e)),
                Progress (idx + 1) (df_len df)]\<rparr>)"
    by (simp add: loop_body_processed add_event_def error_updates_def)
next
  fix e' assume "r = Inl e'"
  with assms show "generate_loop api inp df ((idx, row) # irs) st =
      (Some e',
       st1\<lparr>world := w, error_count := error_count st1 + 1,
            trace := trace st1 @
              [WriteBack (spreadsheet_id inp) (idx + 2)
                 [(STATUS_COL, lit ''Error: '' @ take 100 (exn_str e))]]\<rparr>)"
    by (rule loop_left_by_exception)
next
  fix e' before w0
  assume a: "r = Inl e' \<and> rows df = before @ (idx, row) # irs \<and>
    generate_loop api inp df before
      \<lparr>world = w0, trace = [], success_count = 0, error_count = 0\<rparr> = (None, st)"
  with assms have "generate_loop api inp df ((idx, row) # irs) st =
      (Some e',
       st1\<lparr>world := w, error_count := error_count st1 + 1,
            trace := trace st1 @
              [WriteBack (spreadsheet_id inp) (idx + 2)
                 [(STATUS_COL, lit ''Error: '' @ take 100 (exn_str e))]]\<rparr>)"
    by (intro loop_left_by_exception) simp_all
  with a show "generate_documents api inp df w0 =
      st1\<lparr>world := w, error_count := error_count st1 + 1,
           trace := trace st1 @
             [WriteBack (spreadsheet_id inp) (idx + 2)
                [(STATUS_COL, lit ''Error: '' @ take 100 (exn_str e))],
              StError (lit ''Error loading data: '' @ exn_str e')]\<rparr>"
    by (simp add: generate_documents_def generate_loop_append add_event_def)
qed

lemma example_try_block_raises:
  "try_block copy_failing_api example_inputs (columns example_df) (0 + 2)
     (example_row (lit ''Acme'')) start_state =
     (Inl (Exception (lit ''template not found'')),
      start_state\<lparr>world := 1,
         trace := trace start_state @ [CopyGdoc (lit ''tpl-1'') (lit ''Acme - Tech Report'') None]\<rparr>)"
proof -
  have f: "build_filename (custom_filename example_inputs) (columns example_df)
            (example_row (lit ''Acme'')) = lit ''Acme - Tech Report''"
    by (simp add: build_filename_def example_inputs_def example_df_def example_row_def
        py_replace_def placeholder_def dict_get_def lit_def)
  have "copy_gdoc copy_failing_api (template_id example_inputs)
          (build_filename (custom_filename example_inputs) (columns example_df)
             (example_row (lit ''Acme'')))
          (dest_folder_id example_inputs) (world start_state) =
          (Inl (Exception (lit ''template not found'')), 1)"
    by (simp add: copy_failing_api_def ok_api_def start_state_def)
  from try_block_copy_raises [OF this, of "0 + 2"] f show ?thesis
    by (simp add: example_inputs_def)
qed

lemma example_try_block_raises_no_sheet:
  "try_block failing_api example_inputs (columns example_df) (0 + 2)
     (example_row (lit ''Acme'')) start_state =
     (Inl (Exception (lit ''template not found'')),
      start_state\<lparr>world := 1,
         trace := trace start_state @ [CopyGdoc (lit ''tpl-1'') (lit ''Acme - Tech Report'') None]\<rparr>)"
proof -
  have f: "build_filename (custom_filename example_inputs) (columns example_df)
            (example_row (lit ''Acme'')) = lit ''Acme - Tech Report''"
    by (simp add: build_filename_def example_inputs_def example_df_def example_row_def
        py_replace_def placeholder_def dict_get_def lit_def)
  have "copy_gdoc failing_api (template_id example_inputs)
          (build_filename (custom_filename example_inputs) (columns example_df)
             (example_row (lit ''Acme'')))
          (dest_folder_id example_inputs) (world start_state) =
          (Inl (Exception (lit ''template not found'')), 1)"
    by (simp add: failing_api_def copy_failing_api_def ok_api_def start_state_def)
  from try_block_copy_raises [OF this, of "0 + 2"] f show ?thesis
    by (simp add: example_inputs_def)
qed

text \<open>
  The amended claim at concrete inputs: a sheet that accepts the error status (the loop
  goes on and ends normally), and a sheet that refuses it (the loop is left).
\<close>

theorem error_branch_recovery_witness:
  "generate_loop copy_failing_api example_inputs example_df [(0, example_row (lit ''Acme''))]
     start_state =
     (None,
      \<lparr>world = 2,
       trace = [CopyGdoc (lit ''tpl-1'') (lit ''Acme - Tech Report'') None,
                WriteBack (lit ''sheet-1'') 2 [(STATUS_COL, lit ''Error: template not found'')],
                StError ([10060] @ lit '' Row '' @ str_int 2 @ lit '': template not found''),
                Progress 1 2],
       success_count = 0, error_count = 1\<rparr>) \<and>
   generate_loop failing_api example_inputs example_df
     [(0, example_row (lit ''Acme'')), (1, example_row (lit ''Bolt''))] start_state =
     (Some (Exception (lit ''sheet unavailable'')),
      \<lparr>world = 2,
       trace = [CopyGdoc (lit ''tpl-1'') (lit ''Acme - Tech Report'') None,
                WriteBack (lit ''sheet-1'') 2 [(STATUS_COL, lit ''Error: template not found'')]],
       success_count = 0, error_count = 1\<rparr>) \<and>
   generate_documents failing_api example_inputs example_df 0 =
     \<lparr>world = 2,
      trace = [CopyGdoc (lit ''tpl-1'') (lit ''Acme - Tech Report'') None,
               WriteBack (lit ''sheet-1'') 2 [(STATUS_COL, lit ''Error: template not found'')],
               StError (lit ''Error loading data: sheet unavailable'')],
      success_count = 0, error_count = 1\<rparr>"
proof -
  have w: "write_back copy_failing_api (spreadsheet_id example_inputs) (0 + 2)
        [(STATUS_COL, lit ''Error: '' @ take 100 (exn_str (Exception (lit ''template not found''))))]
        (world (start_state\<lparr>world := 1,
           trace := trace start_state @
             [CopyGdoc (lit ''tpl-1'') (lit ''Acme - Tech Report'') None]\<rparr>)) = (Inr (), 2)"
    by (simp add: copy_failing_api_def ok_api_def)
  have w': "write_back failing_api (spreadsheet_id example_inputs) (0 + 2)
        [(STATUS_COL, lit ''Error: '' @ take 100 (exn_str (Exception (lit ''template not found''))))]
        (world (start_state\<lparr>world := 1,
           trace := trace start_state @
             [CopyGdoc (lit ''tpl-1'') (lit ''Acme - Tech Report'') None]\<rparr>)) =
        (Inl (Exception (lit ''sheet unavailable'')), 2)"
    by (simp add: failing_api_def copy_failing_api_def ok_api_def)
  have d: "rows example_df = [] @ (0, example_row (lit ''Acme'')) # [(1, example_row (lit ''Bolt''))]"
    "generate_loop failing_api example_inputs example_df []
       \<lparr>world = 0, trace = [], success_count = 0, error_count = 0\<rparr> = (None, start_state)"
    by (simp_all add: example_df_def start_state_def)
  note ok = error_branch_recovery [OF example_row_processed example_try_block_raises w, of "[]"]
  note ko = error_branch_recovery [OF example_row_processed example_try_block_raises_no_sheet w',
      of "[(1, example_row (lit ''Bolt''))]"]
  from ko [THEN conjunct2, THEN conjunct2, THEN conjunct2, rule_format,
      of "Exception (lit ''sheet unavailable'')" "[]" 0] d
  have g: "generate_documents failing_api example_inputs example_df 0 =
     \<lparr>world = 2,
      trace = [CopyGdoc (lit ''tpl-1'') (lit ''Acme - Tech Report'') None,
               WriteBack (lit ''sheet-1'') 2 [(STATUS_COL, lit ''Error: template not found'')],
               StError (lit ''Error loading data: sheet unavailable'')],
      success_count = 0, error_count = 1\<rparr>"
    by (simp add: start_state_def example_inputs_def lit_def)
  from ok ko g show ?thesis
    by (simp add: start_state_def example_inputs_def example_df_def df_len_def lit_def)
qed

text \<open>
  Claim C1 as stated does not hold: with a sheet that refuses every write, the first
  row's failure is followed by a failing \<open>write_back\<close> in the handler, and the loop is left
  with that exception. The second row, selected and without URL, is never processed.
\<close>

theorem error_write_back_failure_stops_loop:
  "generate_loop failing_api example_inputs example_df (rows example_df) start_state =
     (Some (Exception (lit ''sheet unavailable'')),
      \<lparr>world = 2,
       trace = [CopyGdoc (lit ''tpl-1'') (lit ''Acme - Tech Report'') None,
                WriteBack (lit ''sheet-1'') 2 [(STATUS_COL, lit ''Error: template not found'')]],
       success_count = 0, error_count = 1\<rparr>) \<and>
   rows example_df = [(0, example_row (lit ''Acme'')), (1, example_row (lit ''Bolt''))] \<and>
   selected example_inputs 1 (example_row (lit ''Bolt'')) \<and>
   \<not> has_url (example_row (lit ''Bolt''))"
proof -
  have f: "build_filename (custom_filename example_inputs) (columns example_df)
            (example_row (lit ''Acme'')) = lit ''Acme - Tech Report''"
    by (simp add: build_filename_def example_inputs_def example_df_def example_row_def
        py_replace_def placeholder_def dict_get_def lit_def)
  have t: "try_block failing_api example_inputs (columns example_df) 2
             (example_row (lit ''Acme'')) start_state =
           (Inl (Exception (lit ''template not found'')),
            \<lparr>world = 1, trace = [CopyGdoc (lit ''tpl-1'') (lit ''Acme - Tech Report'') None],
             success_count = 0, error_count = 0\<rparr>)"
    using f
    by (simp add: try_block_def Let_def add_event_def failing_api_def copy_failing_api_def
        ok_api_def start_state_def example_inputs_def)
  have x: "except_block failing_api example_inputs 2 (Exception (lit ''template not found''))
             \<lparr>world = 1, trace = [CopyGdoc (lit ''tpl-1'') (lit ''Acme - Tech Report'') None],
              success_count = 0, error_count = 0\<rparr> =
           (Some (Exception (lit ''sheet unavailable'')),
            \<lparr>world = 2,
             trace = [CopyGdoc (lit ''tpl-1'') (lit ''Acme - Tech Report'') None,
                      WriteBack (lit ''sheet-1'') 2
                        [(STATUS_COL, lit ''Error: template not found'')]],
             success_count = 0, error_count = 1\<rparr>)"
    by (simp add: except_block_def Let_def add_event_def error_updates_def failing_api_def
        copy_failing_api_def ok_api_def example_inputs_def lit_def)
  have "loop_body failing_api example_inputs example_df (0, example_row (lit ''Acme''))
          start_state =
        (Some (Exception (lit ''sheet unavailable'')),
         \<lparr>world = 2,
          trace = [CopyGdoc (lit ''tpl-1'') (lit ''Acme - Tech Report'') None,
                   WriteBack (lit ''sheet-1'') 2
                     [(STATUS_COL, lit ''Error: template not found'')]],
          success_count = 0, error_count = 1\<rparr>)"
    using example_row_processed t x
    by (simp add: loop_body_processed)
  then show ?thesis
    using example_row_processed by (simp add: example_df_def)
qed

section \<open>Verification: the agents runner\<close>

lemma run_calls_append: "run_calls (xs @ ys) = run_calls xs @ run_calls ys"
  by (induction xs rule: run_calls.induct) simp_all

lemma run_calls_show_results: "run_calls (concat (map show_result rs)) = []"
  by (induction rs) (simp_all add: run_calls_append show_result_def)

lemma length_sequential_outcomes:
  "length (sequential_outcomes llm ctx as w) = length as"
  by (induction as arbitrary: ctx w) (simp_all add: split_beta)

lemma length_results_from:
  "length (results_from i as rs) = min (length as) (length rs)"
  by (induction i as rs rule: results_from.induct) simp_all

lemma nth_results_from:
  "j < length as \<Longrightarrow> j < length rs \<Longrightarrow>
     results_from i as rs ! j = result_of (i + j) (as ! j) (rs ! j)"
proof (induction i as rs arbitrary: j rule: results_from.induct)
  case (1 i a as r rs)
  then show ?case by (cases j) simp_all
qed simp_all

text \<open>
  One iteration inside the list: \<open>run_agent\<close> is called once, on \<open>agents[i]\<close> with the
  context as it stands, one result is appended whether the call returned or raised, and
  the iteration ends normally, handing on the context as the call left it.
\<close>

lemma agent_step_spec:
  assumes "i < length agents"
  shows "\<exists>st'. agent_step llm agents ctx n i st =
             (None, fst (snd (run_agent llm (agents ! i) ctx (llm_world st))), st') \<and>
           llm_world st' = snd (snd (run_agent llm (agents ! i) ctx (llm_world st))) \<and>
           results st' = results st @
             [result_of i (agents ! i) (fst (run_agent llm (agents ! i) ctx (llm_world st)))] \<and>
           run_calls (shown st') = run_calls (shown st) @ [(agents ! i, ctx)]"
proof (cases "run_agent llm (agents ! i) ctx (llm_world st)")
  case (fields r ctx' w)
  show ?thesis
  proof (cases r)
    case (Inl e)
    with fields assms show ?thesis
      by (simp add: agent_step_def Let_def emit_def result_of_def run_calls_append)
  next
    case (Inr out)
    with fields assms show ?thesis
      by (simp add: agent_step_def Let_def emit_def result_of_def run_calls_append)
  qed
qed

lemma agents_loop_spec:
  "k + m \<le> length agents \<Longrightarrow>
   \<exists>ctx' st'. agents_loop llm agents ctx n [k..<k + m] st = (None, ctx', st') \<and>
     results st' = results st @
       results_from k (take m (drop k agents))
         (map snd (sequential_outcomes llm ctx (take m (drop k agents)) (llm_world st))) \<and>
     run_calls (shown st') = run_calls (shown st) @
       zip (take m (drop k agents))
         (map fst (sequential_outcomes llm ctx (take m (drop k agents)) (llm_world st)))"
proof (induction m arbitrary: k ctx st)
  case 0
  show ?case by simp
next
  case (Suc m)
  then have k: "k < length agents" by simp
  obtain r ctx1 w1 where ra: "run_agent llm (agents ! k) ctx (llm_world st) = (r, ctx1, w1)"
    by (cases "run_agent llm (agents ! k) ctx (llm_world st)")
  from agent_step_spec [OF k, of llm ctx n st] ra obtain st1 where
    s: "agent_step llm agents ctx n k st = (None, ctx1, st1)"
    and w: "llm_world st1 = w1"
    and r: "results st1 = results st @ [result_of k (agents ! k) r]"
    and c: "run_calls (shown st1) = run_calls (shown st) @ [(agents ! k, ctx)]"
    by auto
  from Suc.prems have "Suc k + m \<le> length agents" by simp
  from Suc.IH [OF this, of ctx1 st1] obtain ctx' st' where
    l: "agents_loop llm agents ctx1 n [Suc k..<Suc k + m] st1 = (None, ctx', st')"
    and r': "results st' = results st1 @
        results_from (Suc k) (take m (drop (Suc k) agents))
          (map snd (sequential_outcomes llm ctx1 (take m (drop (Suc k) agents)) (llm_world st1)))"
    and c': "run_calls (shown st') = run_calls (shown st1) @
        zip (take m (drop (Suc k) agents))
          (map fst (sequential_outcomes llm ctx1 (take m (drop (Suc k) agents)) (llm_world st1)))"
    by blast
  have upt: "[k..<k + Suc m] = k # [Suc k..<Suc k + m]"
    by (simp add: upt_conv_Cons del: upt_Suc)
  have tk: "take (Suc m) (drop k agents) = agents ! k # take m (drop (Suc k) agents)"
    using k by (simp add: Cons_nth_drop_Suc [symmetric])
  have "agents_loop llm agents ctx n [k..<k + Suc m] st = (None, ctx', st')"
    unfolding upt using s l by simp
  moreover have "results st' = results st @
       results_from k (take (Suc m) (drop k agents))
         (map snd (sequential_outcomes llm ctx (take (Suc m) (drop k agents)) (llm_world st)))"
    using r r' w ra by (simp add: tk)
  moreover have "run_calls (shown st') = run_calls (shown st) @
       zip (take (Suc m) (drop k agents))
         (map fst (sequential_outcomes llm ctx (take (Suc m) (drop k agents)) (llm_world st)))"
    using c c' w ra by (simp add: tk)
  ultimately show ?case by blast
qed

lemma agents_loop_from_start:
  assumes "nat n \<le> length agents"
  shows "\<exists>ctx' st'. agents_loop llm agents ctx n [0..<nat n] st = (None, ctx', st') \<and>
     results st' = results st @
       results_from 0 (take (nat n) agents)
         (map snd (sequential_outcomes llm ctx (take (nat n) agents) (llm_world st))) \<and>
     run_calls (shown st') = run_calls (shown st) @
       zip (take (nat n) agents)
         (map fst (sequential_outcomes llm ctx (take (nat n) agents) (llm_world st)))"
proof -
  from assms have "0 + nat n \<le> length agents" by simp
  from agents_loop_spec [OF this, of llm ctx n st] show ?thesis by simp
qed

text \<open>A provider that leaves the dictionary alone is given the same contents every time.\<close>

lemma sequential_outcomes_unchanged:
  assumes "\<forall>a w. fst (snd (run_agent llm a ctx w)) = ctx"
  shows "map fst (sequential_outcomes llm ctx as w) = replicate (length as) ctx"
proof (induction as arbitrary: w)
  case Nil
  show ?case by simp
next
  case (Cons a as)
  obtain r ctx' w' where ra: "run_agent llm a ctx w = (r, ctx', w')"
    by (cases "run_agent llm a ctx w")
  with assms have "ctx' = ctx" by (metis fst_conv snd_conv)
  with ra Cons.IH show ?case by simp
qed

lemma zip_replicate_map: "zip xs (replicate (length xs) c) = map (\<lambda>x. (x, c)) xs"
  by (induction xs) simp_all

lemma result_shown:
  assumes "r \<in> set rs"
  shows "res_status r = lit ''success'' \<Longrightarrow>
           StMarkdown (res_output r) \<in> set (concat (map show_result rs))"
    and "res_status r \<noteq> lit ''success'' \<Longrightarrow>
           StErrorBox (res_output r) \<in> set (concat (map show_result rs))"
  using assms by (auto simp: show_result_def)

lemma status_literals_distinct: "lit ''error'' \<noteq> lit ''success''"
  by (simp add: lit_def)

text \<open>Past the end of the list the subscription raises and the loop is left.\<close>

lemma agent_step_index_error:
  "length agents \<le> i \<Longrightarrow> agent_step llm agents ctx n i st = (Some IndexError, ctx, st)"
  by (simp add: agent_step_def)

text \<open>
  Claim C7. With \<open>num_agents\<close> within the list (the number input is bounded by
  \<open>len(agents)\<close>), the loop ends normally after calling \<open>run_agent\<close> exactly
  \<open>num_agents\<close> times, on \<open>agents[0]\<close>, ..., \<open>agents[num_agents - 1]\<close> in this order. It
  collects one result per agent: the \<open>i\<close>-th is the returned text with status
  \<open>success\<close>, or \<open>"Error: "\<close> and the message with status \<open>error\<close> when that call
  raised; a call that raises does not keep the later ones from running. After the loop
  every collected result is shown, in order: a heading card and the text through
  \<open>st.markdown\<close> for a success, a heading card and the error string through \<open>st.error\<close>
  otherwise.
\<close>

theorem agent_runner_loop:
  assumes "nat num_agents \<le> length agents"
  shows "\<exists>ctx' st'.
           agents_loop llm agents ctx num_agents [0..<nat num_agents] st = (None, ctx', st') \<and>
           map fst (run_calls (shown st')) =
             map fst (run_calls (shown st)) @ take (nat num_agents) agents \<and>
           length (results st') = length (results st) + nat num_agents \<and>
           (\<forall>i < nat num_agents.
              results st' ! (length (results st) + i) =
                (case snd (sequential_outcomes llm ctx (take (nat num_agents) agents)
                             (llm_world st) ! i) of
                   Inr out \<Rightarrow>
                     \<lparr>res_agent = agent_name_of (agents ! i) i, res_status = lit ''success'',
                      res_output = out\<rparr>
                 | Inl e \<Rightarrow>
                     \<lparr>res_agent = agent_name_of (agents ! i) i, res_status = lit ''error'',
                      res_output = lit ''Error: '' @ exn_str e\<rparr>)) \<and>
           shown (display_results st') =
             shown st' @
             [StMarkdown (lit ''---''), StMarkdown (lit ''### '' @ [128202] @ lit '' Agent Results'')] @
             concat (map (\<lambda>r. (if res_status r = lit ''success''
                                then [AgentCard True (py_str (res_agent r)), StMarkdown (res_output r)]
                                else [AgentCard False (py_str (res_agent r)), StErrorBox (res_output r)])
                               @ [StMarkdown (lit ''<br>'')])
                       (results st')) \<and>
           (\<forall>i < nat num_agents.
              (case snd (sequential_outcomes llm ctx (take (nat num_agents) agents)
                           (llm_world st) ! i) of
                 Inr out \<Rightarrow>
                   StMarkdown out \<in> set (drop (length (shown st')) (shown (display_results st')))
               | Inl e \<Rightarrow>
                   StErrorBox (lit ''Error: '' @ exn_str e)
                     \<in> set (drop (length (shown st')) (shown (display_results st')))))"
proof -
  let ?as = "take (nat num_agents) agents"
  let ?os = "sequential_outcomes llm ctx ?as (llm_world st)"
  from assms have "0 + nat num_agents \<le> length agents" by simp
  from agents_loop_spec [OF this, of llm ctx num_agents st] obtain ctx' st' where
    l: "agents_loop llm agents ctx num_agents [0..<nat num_agents] st = (None, ctx', st')"
    and r: "results st' = results st @ results_from 0 ?as (map snd ?os)"
    and c: "run_calls (shown st') = run_calls (shown st) @ zip ?as (map fst ?os)"
    by auto
  have len: "length ?as = nat num_agents" "length ?os = nat num_agents"
    using assms by (simp_all add: length_sequential_outcomes)
  have calls: "map fst (run_calls (shown st')) = map fst (run_calls (shown st)) @ ?as"
    using c len by simp
  have n: "length (results st') = length (results st) + nat num_agents"
    using r len by (simp add: length_results_from)
  have nth: "results st' ! (length (results st) + i) = result_of i (agents ! i) (snd (?os ! i))"
    if "i < nat num_agents" for i
    using that r len nth_results_from [of i ?as "map snd ?os" 0] by (simp add: nth_append)
  have res: "results st' ! (length (results st) + i) =
      (case snd (?os ! i) of
         Inr out \<Rightarrow>
           \<lparr>res_agent = agent_name_of (agents ! i) i, res_status = lit ''success'',
            res_output = out\<rparr>
       | Inl e \<Rightarrow>
           \<lparr>res_agent = agent_name_of (agents ! i) i, res_status = lit ''error'',
            res_output = lit ''Error: '' @ exn_str e\<rparr>)"
    if "i < nat num_agents" for i
    using nth [OF that] by (simp add: result_of_def split: sum.splits)
  have disp: "shown (display_results st') =
      shown st' @
      [StMarkdown (lit ''---''), StMarkdown (lit ''### '' @ [128202] @ lit '' Agent Results'')] @
      concat (map (\<lambda>r. (if res_status r = lit ''success''
                         then [AgentCard True (py_str (res_agent r)), StMarkdown (res_output r)]
                         else [AgentCard False (py_str (res_agent r)), StErrorBox (res_output r)])
                        @ [StMarkdown (lit ''<br>'')])
                (results st'))"
    by (simp add: display_results_def show_result_def [abs_def])
  have after: "drop (length (shown st')) (shown (display_results st')) =
      [StMarkdown (lit ''---''), StMarkdown (lit ''### '' @ [128202] @ lit '' Agent Results'')] @
      concat (map show_result (results st'))"
    by (simp add: display_results_def)
  have mem: "(case snd (?os ! i) of
         Inr out \<Rightarrow>
           StMarkdown out \<in> set (drop (length (shown st')) (shown (display_results st')))
       | Inl e \<Rightarrow>
           StErrorBox (lit ''Error: '' @ exn_str e)
             \<in> set (drop (length (shown st')) (shown (display_results st'))))"
    if i: "i < nat num_agents" for i
  proof -
    from i n have m: "results st' ! (length (results st) + i) \<in> set (results st')"
      by (intro nth_mem) simp
    show ?thesis
    proof (cases "snd (?os ! i)")
      case (Inl e)
      with res [OF i] have
        "res_status (results st' ! (length (results st) + i)) \<noteq> lit ''success''"
        "res_output (results st' ! (length (results st) + i)) = lit ''Error: '' @ exn_str e"
        using status_literals_distinct by simp_all
      with result_shown(2) [OF m] Inl show ?thesis by (simp add: after)
    next
      case (Inr out)
      with res [OF i] have
        "res_status (results st' ! (length (results st) + i)) = lit ''success''"
        "res_output (results st' ! (length (results st) + i)) = out"
        by simp_all
      with result_shown(1) [OF m] Inr show ?thesis by (simp add: after)
    qed
  qed
  from l calls n res disp mem show ?thesis by blast
qed

lemma example_outcomes:
  "sequential_outcomes example_llm (build_context (lit ''{...}'') (lit ''Company''))
     (take (nat 2) example_agents) (llm_world run_start) =
     [(build_context (lit ''{...}'') (lit ''Company''), Inr (lit ''ok: Company'')),
      (build_context (lit ''{...}'') (lit ''Company''), Inl (Exception (lit ''rate limit'')))]"
  by (simp add: example_llm_def example_agents_def build_context_def dict_get_def lit_def
      numeral_2_eq_2)

lemma list_of_length_two: "length xs = 2 \<Longrightarrow> xs = [xs ! 0, xs ! 1]"
  by (auto simp: numeral_2_eq_2 length_Suc_conv)

theorem agent_runner_loop_witness:
  "\<exists>ctx' st'.
     agents_loop example_llm example_agents (build_context (lit ''{...}'') (lit ''Company'')) 2
       [0..<nat 2] run_start = (None, ctx', st') \<and>
     map fst (run_calls (shown st')) =
       [[(lit ''id'', PStr (lit ''data_validator'')), (lit ''name'', PStr (lit ''Validator''))],
        [(lit ''id'', PStr (lit ''summarizer''))]] \<and>
     results st' =
       [\<lparr>res_agent = PStr (lit ''Validator''), res_status = lit ''success'',
         res_output = lit ''ok: Company''\<rparr>,
        \<lparr>res_agent = PStr (lit ''summarizer''), res_status = lit ''error'',
         res_output = lit ''Error: rate limit''\<rparr>] \<and>
     drop (length (shown st')) (shown (display_results st')) =
       [StMarkdown (lit ''---''), StMarkdown (lit ''### '' @ [128202] @ lit '' Agent Results''),
        AgentCard True (lit ''Validator''), StMarkdown (lit ''ok: Company''),
        StMarkdown (lit ''<br>''),
        AgentCard False (lit ''summarizer''), StErrorBox (lit ''Error: rate limit''),
        StMarkdown (lit ''<br>'')]"
proof -
  let ?ctx = "build_context (lit ''{...}'') (lit ''Company'')"
  have n: "nat 2 \<le> length example_agents" by (simp add: example_agents_def)
  from agent_runner_loop [OF n, of example_llm ?ctx run_start]
  obtain ctx' st' where
    l: "agents_loop example_llm example_agents ?ctx 2 [0..<nat 2] run_start = (None, ctx', st')"
    and c: "map fst (run_calls (shown st')) =
          map fst (run_calls (shown run_start)) @ take (nat 2) example_agents"
    and k: "length (results st') = length (results run_start) + nat 2"
    and r: "\<forall>i < nat 2. results st' ! (length (results run_start) + i) =
          (case snd (sequential_outcomes example_llm ?ctx (take (nat 2) example_agents)
                       (llm_world run_start) ! i) of
             Inr out \<Rightarrow>
               \<lparr>res_agent = agent_name_of (example_agents ! i) i, res_status = lit ''success'',
                res_output = out\<rparr>
           | Inl e \<Rightarrow>
               \<lparr>res_agent = agent_name_of (example_agents ! i) i, res_status = lit ''error'',
                res_output = lit ''Error: '' @ exn_str e\<rparr>)"
    and d: "shown (display_results st') =
          shown st' @
          [StMarkdown (lit ''---''), StMarkdown (lit ''### '' @ [128202] @ lit '' Agent Results'')] @
          concat (map (\<lambda>r. (if res_status r = lit ''success''
                             then [AgentCard True (py_str (res_agent r)), StMarkdown (res_output r)]
                             else [AgentCard False (py_str (res_agent r)), StErrorBox (res_output r)])
                            @ [StMarkdown (lit ''<br>'')])
                    (results st'))"
    by blast
  from c have c': "map fst (run_calls (shown st')) =
      [[(lit ''id'', PStr (lit ''data_validator'')), (lit ''name'', PStr (lit ''Validator''))],
       [(lit ''id'', PStr (lit ''summarizer''))]]"
    by (simp add: run_start_def example_agents_def numeral_2_eq_2)
  from k have k': "length (results st') = 2" by (simp add: run_start_def)
  from r [rule_format, of 0] have r0: "results st' ! 0 =
      \<lparr>res_agent = PStr (lit ''Validator''), res_status = lit ''success'',
       res_output = lit ''ok: Company''\<rparr>"
    unfolding example_outcomes
    by (simp add: run_start_def agent_name_of_def example_agents_def dict_get_def lit_def)
  from r [rule_format, of 1] have r1: "results st' ! 1 =
      \<lparr>res_agent = PStr (lit ''summarizer''), res_status = lit ''error'',
       res_output = lit ''Error: rate limit''\<rparr>"
    unfolding example_outcomes
    by (simp add: run_start_def agent_name_of_def example_agents_def dict_get_def lit_def)
  from list_of_length_two [OF k'] r0 r1 have rs: "results st' =
      [\<lparr>res_agent = PStr (lit ''Validator''), res_status = lit ''success'',
        res_output = lit ''ok: Company''\<rparr>,
       \<lparr>res_agent = PStr (lit ''summarizer''), res_status = lit ''error'',
        res_output = lit ''Error: rate limit''\<rparr>]"
    by simp
  have dd: "drop (length (shown st')) (shown (display_results st')) =
      [StMarkdown (lit ''---''), StMarkdown (lit ''### '' @ [128202] @ lit '' Agent Results''),
       AgentCard True (lit ''Validator''), StMarkdown (lit ''ok: Company''),
       StMarkdown (lit ''<br>''),
       AgentCard False (lit ''summarizer''), StErrorBox (lit ''Error: rate limit''),
       StMarkdown (lit ''<br>'')]"
    unfolding d rs by (simp add: lit_def)
  from l c' rs dd show ?thesis
    by - (rule exI [of _ ctx'], rule exI [of _ st'], (rule conjI, assumption)+, assumption)
qed

lemma pipeline_runs_loop:
  assumes "0 \<le> row_number - 2" and "row_number - 2 < df_len df"
    and "json_dumps (snd (rows df ! nat (row_number - 2))) = Inr row_json"
    and "agents_loop llm agents
           [(lit ''row_json'', row_json), (lit ''required_fields_csv'', required_fields)]
           num_agents [0..<nat num_agents]
           (emit (AnalyzingCard row_number (snd (rows df ! nat (row_number - 2))))
              \<lparr>llm_world = w, shown = [], results = []\<rparr>) = (None, ctx', st')"
  shows "run_agents_pipeline llm json_dumps df row_number required_fields num_agents agents w =
           display_results st'"
  using assms by (simp add: run_agents_pipeline_def Let_def build_context_def)

text \<open>
  Claim C8, as amended. With the chosen row in range and serialised by \<open>json.dumps\<close>:
  the context is built once, before the loop, as the dictionary with \<open>row_json\<close> = the
  JSON text of the selected row and \<open>required_fields_csv\<close> = the user's required-fields
  string, and app.py never assigns to it: the first call receives it as built and every
  later call receives it as the previous call left it. When \<open>run_agent\<close> does not write
  to the dictionary it is given, every call of the execution therefore receives that
  same context. The text returned by a successful call is shown as it was returned.
\<close>

theorem same_context_for_every_agent:
  assumes "0 \<le> row_number - 2" and "row_number - 2 < df_len df"
    and "json_dumps (snd (rows df ! nat (row_number - 2))) = Inr row_json"
    and "nat num_agents \<le> length agents"
  shows "run_calls (shown (run_agents_pipeline llm json_dumps df row_number required_fields
                             num_agents agents w)) =
           zip (take (nat num_agents) agents)
             (map fst (sequential_outcomes llm
                         [(lit ''row_json'', row_json),
                          (lit ''required_fields_csv'', required_fields)]
                         (take (nat num_agents) agents) w)) \<and>
         ((\<forall>a w'. fst (snd (run_agent llm a
                               [(lit ''row_json'', row_json),
                                (lit ''required_fields_csv'', required_fields)] w')) =
                    [(lit ''row_json'', row_json), (lit ''required_fields_csv'', required_fields)])
          \<longrightarrow>
          run_calls (shown (run_agents_pipeline llm json_dumps df row_number required_fields
                              num_agents agents w)) =
            map (\<lambda>a. (a, [(lit ''row_json'', row_json),
                          (lit ''required_fields_csv'', required_fields)]))
              (take (nat num_agents) agents)) \<and>
         (\<forall>i < nat num_agents. \<forall>out.
            snd (sequential_outcomes llm
                   [(lit ''row_json'', row_json), (lit ''required_fields_csv'', required_fields)]
                   (take (nat num_agents) agents) w ! i) = Inr out \<longrightarrow>
            StMarkdown out \<in> set (shown (run_agents_pipeline llm json_dumps df row_number
                                            required_fields num_agents agents w)))"
proof -
  let ?ctx = "[(lit ''row_json'', row_json), (lit ''required_fields_csv'', required_fields)]"
  let ?as = "take (nat num_agents) agents"
  let ?os = "sequential_outcomes llm ?ctx ?as w"
  let ?st1 = "emit (AnalyzingCard row_number (snd (rows df ! nat (row_number - 2))))
                \<lparr>llm_world = w, shown = [], results = []\<rparr>"
  from assms(4) have "0 + nat num_agents \<le> length agents" by simp
  from agents_loop_spec [OF this, of llm ?ctx num_agents ?st1] obtain ctx' st' where
    l: "agents_loop llm agents ?ctx num_agents [0..<nat num_agents] ?st1 = (None, ctx', st')"
    and r: "results st' = results_from 0 ?as (map snd ?os)"
    and c: "run_calls (shown st') = zip ?as (map fst ?os)"
    by (auto simp: emit_def)
  have p: "run_agents_pipeline llm json_dumps df row_number required_fields num_agents agents w =
      display_results st'"
    using assms(1,2,3) l by (rule pipeline_runs_loop)
  have calls: "run_calls (shown (display_results st')) = zip ?as (map fst ?os)"
    using c by (simp add: display_results_def run_calls_append run_calls_show_results)
  have len: "length ?as = nat num_agents" "length ?os = nat num_agents"
    using assms(4) by (simp_all add: length_sequential_outcomes)
  have same: "run_calls (shown (display_results st')) = map (\<lambda>a. (a, ?ctx)) ?as"
    if "\<forall>a w'. fst (snd (run_agent llm a ?ctx w')) = ?ctx"
  proof -
    from that have "map fst ?os = replicate (length ?as) ?ctx"
      by (rule sequential_outcomes_unchanged)
    then have "zip ?as (map fst ?os) = map (\<lambda>a. (a, ?ctx)) ?as"
      by (simp only: zip_replicate_map)
    with calls show ?thesis by simp
  qed
  have "StMarkdown out \<in> set (shown (display_results st'))"
    if i: "i < nat num_agents" and o: "snd (?os ! i) = Inr out" for i out
  proof -
    from i len have "results st' ! i = result_of (0 + i) (?as ! i) (map snd ?os ! i)"
      unfolding r by (intro nth_results_from) simp_all
    with o i len have "results st' ! i =
        \<lparr>res_agent = agent_name_of (?as ! i) i, res_status = lit ''success'', res_output = out\<rparr>"
      by (simp add: result_of_def)
    moreover from i len have "results st' ! i \<in> set (results st')"
      unfolding r by (intro nth_mem) (simp add: length_results_from)
    ultimately have "StMarkdown out \<in> set (concat (map show_result (results st')))"
      using result_shown(1) [of "results st' ! i" "results st'"] by simp
    then show ?thesis by (simp add: display_results_def)
  qed
  with p calls same show ?thesis by simp
qed

theorem same_context_for_every_agent_witness:
  "run_calls (shown (run_agents_pipeline example_llm example_dumps example_df 2 (lit ''Company'')
                       3 example_agents 0)) =
     map (\<lambda>a. (a, [(lit ''row_json'', lit ''{...}''), (lit ''required_fields_csv'', lit ''Company'')]))
       example_agents \<and>
   StMarkdown (lit ''ok: Company'') \<in>
     set (shown (run_agents_pipeline example_llm example_dumps example_df 2 (lit ''Company'')
                   3 example_agents 0))"
proof -
  have a: "(0::int) \<le> 2 - 2" "2 - 2 < df_len example_df"
    by (simp_all add: df_len_def example_df_def)
  have j: "example_dumps (snd (rows example_df ! nat (2 - 2))) = Inr (lit ''{...}'')"
    by (simp add: example_dumps_def)
  have n: "nat 3 \<le> length example_agents" by (simp add: example_agents_def)
  have u: "\<forall>a w'. fst (snd (run_agent example_llm a
             [(lit ''row_json'', lit ''{...}''), (lit ''required_fields_csv'', lit ''Company'')] w')) =
           [(lit ''row_json'', lit ''{...}''), (lit ''required_fields_csv'', lit ''Company'')]"
    by (simp add: example_llm_def)
  have o: "snd (sequential_outcomes example_llm
             [(lit ''row_json'', lit ''{...}''), (lit ''required_fields_csv'', lit ''Company'')]
             (take (nat 3) example_agents) 0 ! 0) = Inr (lit ''ok: Company'')"
    by (simp add: example_llm_def example_agents_def dict_get_def lit_def)
  have t: "take (nat 3) example_agents = example_agents" by (simp add: example_agents_def)
  note th = same_context_for_every_agent [where row_number = 2 and df = example_df
      and json_dumps = example_dumps and row_json = "lit ''{...}''" and num_agents = 3
      and agents = example_agents and llm = example_llm and required_fields = "lit ''Company''"
      and w = 0, OF a j n]
  from th [THEN conjunct2, THEN conjunct1, THEN mp, OF u] t
  have calls: "run_calls (shown (run_agents_pipeline example_llm example_dumps
        example_df 2 (lit ''Company'') 3 example_agents 0)) =
      map (\<lambda>a. (a, [(lit ''row_json'', lit ''{...}''), (lit ''required_fields_csv'', lit ''Company'')]))
        example_agents"
    by simp
  from th [THEN conjunct2, THEN conjunct2, rule_format, of 0 "lit ''ok: Company''"] o
  have "StMarkdown (lit ''ok: Company'') \<in>
      set (shown (run_agents_pipeline example_llm example_dumps example_df 2 (lit ''Company'')
                    3 example_agents 0))"
    by simp
  with calls show ?thesis by simp
qed

text \<open>
  Claim C8 as stated does not hold for every provider: \<open>writing_llm\<close> overwrites the
  \<open>row_json\<close> entry of the dictionary it is given, and since the same dictionary goes to
  every call, the second agent receives \<open>{}\<close> where the first received the row.
\<close>

theorem provider_write_reaches_later_agents:
  "run_calls (shown (run_agents_pipeline writing_llm example_dumps example_df 2 (lit ''Company'')
                       2 example_agents 0)) =
     [([(lit ''id'', PStr (lit ''data_validator'')), (lit ''name'', PStr (lit ''Validator''))],
       [(lit ''row_json'', lit ''{...}''), (lit ''required_fields_csv'', lit ''Company'')]),
      ([(lit ''id'', PStr (lit ''summarizer''))],
       [(lit ''row_json'', lit ''{}''), (lit ''required_fields_csv'', lit ''Company'')])] \<and>
   example_dumps (snd (rows example_df ! 0)) = Inr (lit ''{...}'') \<and>
   lit ''{}'' \<noteq> lit ''{...}''"
proof -
  have a: "(0::int) \<le> 2 - 2" "2 - 2 < df_len example_df"
    by (simp_all add: df_len_def example_df_def)
  have j: "example_dumps (snd (rows example_df ! nat (2 - 2))) = Inr (lit ''{...}'')"
    by (simp add: example_dumps_def)
  let ?ctx = "[(lit ''row_json'', lit ''{...}''), (lit ''required_fields_csv'', lit ''Company'')]"
  let ?st1 = "emit (AnalyzingCard 2 (snd (rows example_df ! nat (2 - 2))))
                \<lparr>llm_world = 0::nat, shown = [], results = []\<rparr>"
  have "nat 2 \<le> length example_agents" by (simp add: example_agents_def)
  from agents_loop_from_start [OF this, of writing_llm ?ctx ?st1] obtain ctx' st' where
    l: "agents_loop writing_llm example_agents ?ctx 2 [0..<nat 2] ?st1 = (None, ctx', st')"
    and c: "run_calls (shown st') = run_calls (shown ?st1) @
        zip (take (nat 2) example_agents)
          (map fst (sequential_outcomes writing_llm ?ctx (take (nat 2) example_agents)
                      (llm_world ?st1)))"
    by blast
  have p: "run_agents_pipeline writing_llm example_dumps example_df 2 (lit ''Company'') 2
             example_agents 0 = display_results st'"
    using a j l by (rule pipeline_runs_loop)
  have "run_calls (shown (display_results st')) =
     [([(lit ''id'', PStr (lit ''data_validator'')), (lit ''name'', PStr (lit ''Validator''))],
       [(lit ''row_json'', lit ''{...}''), (lit ''required_fields_csv'', lit ''Company'')]),
      ([(lit ''id'', PStr (lit ''summarizer''))],
       [(lit ''row_json'', lit ''{}''), (lit ''required_fields_csv'', lit ''Company'')])]"
    using c
    by (simp add: display_results_def run_calls_append run_calls_show_results emit_def
        writing_llm_def example_agents_def numeral_2_eq_2)
  with p show ?thesis by (simp add: example_dumps_def lit_def)
qed

end
